theory Spec2Isabelle
  imports Complex_Main "HOL-Library.Sublist" "HOL-Library.Log_Nat"
begin

section \<open>JavaScript values\<close>

text \<open>
  A JavaScript string is the list of its UTF-16 code units; \<open>length\<close> is the
  \<^verbatim>\<open>.length\<close> of the source. A literal of the source is written \<open>js ''...''\<close>.
\<close>

type_synonym jsstring = "nat list"

abbreviation js :: "string \<Rightarrow> jsstring" where
  "js s \<equiv> map of_char s"

text \<open>
  A number is an IEEE double: not-a-number, an infinity (\<open>True\<close> for the negative one)
  or a finite value, kept as the rational it denotes. The code only classifies numbers
  and compares them with constants, which is exact on that reading.
\<close>

datatype jsnum = JNaN | JInfinity bool | JFinite rat

datatype jsval =
    JUndefined
  | JNull
  | JBool bool
  | JNum jsnum
  | JStr jsstring
  | JArr "jsval list"
  | JObj "(jsstring \<times> jsval) list"

text \<open>ToBoolean, as the conditional operator and \<^verbatim>\<open>||\<close> apply it.\<close>

fun truthy :: "jsval \<Rightarrow> bool" where
  "truthy JUndefined = False"
| "truthy JNull = False"
| "truthy (JBool b) = b"
| "truthy (JNum JNaN) = False"
| "truthy (JNum (JInfinity _)) = True"
| "truthy (JNum (JFinite q)) = (q \<noteq> 0)"
| "truthy (JStr s) = (s \<noteq> [])"
| "truthy (JArr _) = True"
| "truthy (JObj _) = True"

text \<open>
  WhiteSpace and LineTerminator of ECMAScript: what \<^verbatim>\<open>String.prototype.trim\<close> removes
  and \<^verbatim>\<open>parseInt\<close> skips.
\<close>

definition js_whitespace :: "nat \<Rightarrow> bool" where
  "js_whitespace c \<longleftrightarrow>
     c \<in> set [0x09, 0x0A, 0x0B, 0x0C, 0x0D, 0x20, 0xA0, 0x1680, 0x2028, 0x2029,
              0x202F, 0x205F, 0x3000, 0xFEFF]
     \<or> (0x2000 \<le> c \<and> c \<le> 0x200A)"

definition js_trim :: "jsstring \<Rightarrow> jsstring" where
  "js_trim s = rev (dropWhile js_whitespace (rev (dropWhile js_whitespace s)))"

text \<open>\<^verbatim>\<open>s.split(sep)\<close> for a one-unit separator: never the empty array.\<close>

fun js_split :: "nat \<Rightarrow> jsstring \<Rightarrow> jsstring list" where
  "js_split sep [] = [[]]"
| "js_split sep (c # cs) =
     (if c = sep then [] # js_split sep cs
      else (case js_split sep cs of
              [] \<Rightarrow> [[c]]
            | l # ls \<Rightarrow> (c # l) # ls))"

text \<open>\<^verbatim>\<open>xs.join(sep)\<close> on an array of strings.\<close>

fun js_join :: "jsstring \<Rightarrow> jsstring list \<Rightarrow> jsstring" where
  "js_join sep [] = []"
| "js_join sep [x] = x"
| "js_join sep (x # y # ys) = x @ sep @ js_join sep (y # ys)"

section \<open>Regular expressions\<close>

text \<open>
  The regular expressions of \<^verbatim>\<open>lib/validation.js\<close> use character classes,
  concatenation, groups, \<^verbatim>\<open>*\<close> and \<^verbatim>\<open>+\<close>, with or without the anchors
  \<^verbatim>\<open>^\<close> and \<^verbatim>\<open>$\<close>, and no flags. A class is a list of inclusive ranges of
  code units. \<open>Eps\<close>, \<open>Nothing\<close> and \<open>Alt\<close> only arise as derivatives.
\<close>

datatype regex =
    Nothing
  | Eps
  | AnyChar
  | Chars "(nat \<times> nat) list"
  | Cat regex regex
  | Alt regex regex
  | Star regex
  | Plus regex

datatype regexp = RegExp bool regex bool

definition in_class :: "(nat \<times> nat) list \<Rightarrow> nat \<Rightarrow> bool" where
  "in_class rs c = list_ex (\<lambda>r. fst r \<le> c \<and> c \<le> snd r) rs"

fun nullable :: "regex \<Rightarrow> bool" where
  "nullable Nothing = False"
| "nullable Eps = True"
| "nullable AnyChar = False"
| "nullable (Chars rs) = False"
| "nullable (Cat a b) = (nullable a \<and> nullable b)"
| "nullable (Alt a b) = (nullable a \<or> nullable b)"
| "nullable (Star a) = True"
| "nullable (Plus a) = nullable a"

fun deriv :: "nat \<Rightarrow> regex \<Rightarrow> regex" where
  "deriv c Nothing = Nothing"
| "deriv c Eps = Nothing"
| "deriv c AnyChar = Eps"
| "deriv c (Chars rs) = (if in_class rs c then Eps else Nothing)"
| "deriv c (Cat a b) =
     (if nullable a then Alt (Cat (deriv c a) b) (deriv c b) else Cat (deriv c a) b)"
| "deriv c (Alt a b) = Alt (deriv c a) (deriv c b)"
| "deriv c (Star a) = Cat (deriv c a) (Star a)"
| "deriv c (Plus a) = Cat (deriv c a) (Star a)"

fun full_match :: "regex \<Rightarrow> jsstring \<Rightarrow> bool" where
  "full_match r [] = nullable r"
| "full_match r (c # cs) = full_match (deriv c r) cs"

text \<open>
  \<^verbatim>\<open>re.test(s)\<close>: some substring of \<open>s\<close> matches the body; an anchor pins that
  substring to the start or to the end of \<open>s\<close> (without the \<^verbatim>\<open>m\<close> flag \<^verbatim>\<open>$\<close>
  is the end of the input only).
\<close>

fun regexp_test :: "regexp \<Rightarrow> jsstring \<Rightarrow> bool" where
  "regexp_test (RegExp at_start r at_end) s =
     full_match
       (Cat (if at_start then Eps else Star AnyChar)
            (Cat r (if at_end then Eps else Star AnyChar))) s"

section \<open>Input validation (lib/validation.js)\<close>

definition MAX_INPUT_LENGTH :: nat where
  "MAX_INPUT_LENGTH = 1000"

abbreviation cu :: "char \<Rightarrow> nat" where
  "cu c \<equiv> of_char c"

text \<open>\<^verbatim>\<open>[A-Za-z]\<close> and \<^verbatim>\<open>[A-Za-z0-9]\<close>, \<^verbatim>\<open>[a-z]\<close> and \<^verbatim>\<open>[a-zA-Z0-9]\<close>.\<close>

definition letter_class :: "(nat \<times> nat) list" where
  "letter_class = [(cu CHR ''A'', cu CHR ''Z''), (cu CHR ''a'', cu CHR ''z'')]"

definition alnum_class :: "(nat \<times> nat) list" where
  "alnum_class =
     [(cu CHR ''A'', cu CHR ''Z''), (cu CHR ''a'', cu CHR ''z''), (cu CHR ''0'', cu CHR ''9'')]"

definition lower_class :: "(nat \<times> nat) list" where
  "lower_class = [(cu CHR ''a'', cu CHR ''z'')]"

text \<open>\<^verbatim>\<open>/^[A-Za-z][A-Za-z0-9]*(\.[A-Za-z][A-Za-z0-9]*)*$/\<close>\<close>

definition IDENTIFIER_PATTERN :: regexp where
  "IDENTIFIER_PATTERN =
     RegExp True
       (Cat (Chars letter_class)
         (Cat (Star (Chars alnum_class))
           (Star (Cat (Chars [(cu CHR ''.'', cu CHR ''.'')])
                   (Cat (Chars letter_class) (Star (Chars alnum_class)))))))
       True"

text \<open>\<^verbatim>\<open>/^[a-z][a-zA-Z0-9]*$/\<close>\<close>

definition UNARY_SELECTOR_PATTERN :: regexp where
  "UNARY_SELECTOR_PATTERN =
     RegExp True (Cat (Chars lower_class) (Star (Chars alnum_class))) True"

text \<open>
  \<^verbatim>\<open>/^[+\-*/\\~<>=@%|&?!,]+$/\<close>: the sixteen characters
  \<^verbatim>\<open>+ - * / \ ~ < > = @ % | & ? ! ,\<close> (the backslash is code unit 0x5C).
\<close>

definition binary_class :: "(nat \<times> nat) list" where
  "binary_class =
     map (\<lambda>c. (c, c))
       [cu CHR ''+'', cu CHR ''-'', cu CHR ''*'', cu CHR ''/'', 0x5C, cu CHR ''~'',
        cu CHR ''<'', cu CHR ''>'', cu CHR ''='', cu CHR ''@'', cu CHR ''%'', cu CHR ''|'',
        cu CHR ''&'', cu CHR ''?'', cu CHR ''!'', cu CHR '','']"

definition BINARY_SELECTOR_PATTERN :: regexp where
  "BINARY_SELECTOR_PATTERN = RegExp True (Plus (Chars binary_class)) True"

text \<open>\<^verbatim>\<open>/^([a-z][a-zA-Z0-9]*:)+$/\<close>\<close>

definition KEYWORD_SELECTOR_PATTERN :: regexp where
  "KEYWORD_SELECTOR_PATTERN =
     RegExp True
       (Plus (Cat (Chars lower_class)
               (Cat (Star (Chars alnum_class)) (Chars [(cu CHR '':'', cu CHR '':'')]))))
       True"

text \<open>
  \<^verbatim>\<open>/[\x00-\x1f\x7f`${}]/\<close>: the control characters, the backtick (0x60),
  the dollar sign and the two braces.
\<close>

definition dangerous_class :: "(nat \<times> nat) list" where
  "dangerous_class =
     [(0x00, 0x1F), (0x7F, 0x7F), (0x60, 0x60), (cu CHR ''$'', cu CHR ''$''),
      (cu CHR ''{'', cu CHR ''{''), (cu CHR ''}'', cu CHR ''}'')]"

definition DANGEROUS_CHARS :: regexp where
  "DANGEROUS_CHARS = RegExp False (Chars dangerous_class) False"

text \<open>\<^verbatim>\<open>/[\x00-\x08\x0b\x0c\x0e-\x1f\x7f]/\<close>, the class of \<^verbatim>\<open>validateExpression\<close>.\<close>

definition expression_control_class :: "(nat \<times> nat) list" where
  "expression_control_class =
     [(0x00, 0x08), (0x0B, 0x0B), (0x0C, 0x0C), (0x0E, 0x1F), (0x7F, 0x7F)]"

text \<open>\<^verbatim>\<open>/^[a-zA-Z][a-zA-Z0-9_-]*$/\<close>, the pattern of \<^verbatim>\<open>validateServerName\<close>.\<close>

definition server_name_class :: "(nat \<times> nat) list" where
  "server_name_class =
     [(cu CHR ''a'', cu CHR ''z''), (cu CHR ''A'', cu CHR ''Z''), (cu CHR ''0'', cu CHR ''9''),
      (cu CHR ''_'', cu CHR ''_''), (cu CHR ''-'', cu CHR ''-'')]"

text \<open>The result object \<^verbatim>\<open>{ valid, error }\<close>; \<open>error\<close> is absent on success.\<close>

record validation_result =
  valid :: bool
  error :: "jsstring option"

definition accepted :: validation_result where
  "accepted = \<lparr>valid = True, error = None\<rparr>"

definition rejected :: "string \<Rightarrow> validation_result" where
  "rejected msg = \<lparr>valid = False, error = Some (js msg)\<rparr>"

definition validateClassName :: "jsval \<Rightarrow> validation_result" where
  "validateClassName name =
     (case name of
        JStr s \<Rightarrow>
          if length s = 0 then rejected ''Class name cannot be empty''
          else if length s > MAX_INPUT_LENGTH then
            rejected ''Class name exceeds maximum length of 1000''
          else if regexp_test DANGEROUS_CHARS s then
            rejected ''Class name contains invalid characters''
          else if \<not> regexp_test IDENTIFIER_PATTERN s then
            rejected ''Class name must start with a letter and contain only letters, digits, or dots''
          else accepted
      | _ \<Rightarrow> rejected ''Class name must be a string'')"

definition validateSelector :: "jsval \<Rightarrow> validation_result" where
  "validateSelector selector =
     (case selector of
        JStr s \<Rightarrow>
          if length s = 0 then rejected ''Selector cannot be empty''
          else if length s > MAX_INPUT_LENGTH then
            rejected ''Selector exceeds maximum length of 1000''
          else if regexp_test DANGEROUS_CHARS s then
            rejected ''Selector contains invalid characters''
          else
            (let isUnary = regexp_test UNARY_SELECTOR_PATTERN s;
                 isBinary = regexp_test BINARY_SELECTOR_PATTERN s;
                 isKeyword = regexp_test KEYWORD_SELECTOR_PATTERN s
             in if \<not> isUnary \<and> \<not> isBinary \<and> \<not> isKeyword then
                  rejected ''Invalid selector format. Must be unary (e.g., size), binary (e.g., +), or keyword (e.g., at:put:)''
                else accepted)
      | _ \<Rightarrow> rejected ''Selector must be a string'')"

definition validatePattern :: "jsval \<Rightarrow> validation_result" where
  "validatePattern pattern =
     (case pattern of
        JStr s \<Rightarrow>
          if length s > MAX_INPUT_LENGTH then
            rejected ''Pattern exceeds maximum length of 1000''
          else if length s = 0 \<or> s = js ''*'' then accepted
          else if regexp_test DANGEROUS_CHARS s then
            rejected ''Pattern contains invalid characters''
          else accepted
      | _ \<Rightarrow> rejected ''Pattern must be a string'')"

definition validateExpression :: "jsval \<Rightarrow> validation_result" where
  "validateExpression expression =
     (case expression of
        JStr s \<Rightarrow>
          if length s = 0 then rejected ''Expression cannot be empty''
          else if length s > MAX_INPUT_LENGTH then
            rejected ''Expression exceeds maximum length of 1000''
          else if regexp_test (RegExp False (Chars expression_control_class) False) s then
            rejected ''Expression contains invalid control characters''
          else accepted
      | _ \<Rightarrow> rejected ''Expression must be a string'')"

definition MAX_SOURCE_LENGTH :: nat where
  "MAX_SOURCE_LENGTH = 100000"

text \<open>\<^verbatim>\<open>source.includes('\x00')\<close> is membership of the code unit 0.\<close>

definition validateSource :: "jsval \<Rightarrow> validation_result" where
  "validateSource source =
     (case source of
        JStr s \<Rightarrow>
          if length s = 0 then rejected ''Source cannot be empty''
          else if length s > MAX_SOURCE_LENGTH then
            rejected ''Source exceeds maximum length of 100000''
          else if 0 \<in> set s then rejected ''Source contains null bytes''
          else accepted
      | _ \<Rightarrow> rejected ''Source must be a string'')"

definition validateServerName :: "jsval \<Rightarrow> validation_result" where
  "validateServerName name =
     (case name of
        JUndefined \<Rightarrow> accepted
      | JNull \<Rightarrow> accepted
      | JStr s \<Rightarrow>
          if length s = 0 then rejected ''Server name cannot be empty string''
          else if length s > 100 then rejected ''Server name exceeds maximum length''
          else if regexp_test DANGEROUS_CHARS s then
            rejected ''Server name contains invalid characters''
          else if \<not> regexp_test
                    (RegExp True (Cat (Chars letter_class) (Star (Chars server_name_class))) True) s
          then rejected ''Server name must start with a letter and contain only letters, digits, underscores, or hyphens''
          else accepted
      | _ \<Rightarrow> rejected ''Server name must be a string'')"

text \<open>
  \<^verbatim>\<open>parseInt(s, 10)\<close>: leading white space is skipped, then an optional sign, then
  the longest run of decimal digits; with no digit the result is NaN. The integer read is
  rounded to the nearest double (ties to even), which changes nothing below \<open>2 ^ 53\<close>;
  what follows the digits is ignored.
\<close>

definition is_digit :: "nat \<Rightarrow> bool" where
  "is_digit c \<longleftrightarrow> cu CHR ''0'' \<le> c \<and> c \<le> cu CHR ''9''"

definition digits_value :: "nat list \<Rightarrow> nat" where
  "digits_value ds = foldl (\<lambda>a c. 10 * a + (c - cu CHR ''0'')) 0 ds"

definition round_to_double :: "bool \<Rightarrow> nat \<Rightarrow> jsnum" where
  "round_to_double negative n =
     (let signed = (\<lambda>m. JFinite (if negative then - of_nat m else of_nat m))
      in if n < 2 ^ 53 then signed n
         else
           (let e = floorlog 2 n - 53;
                q = n div 2 ^ e;
                r = n mod 2 ^ e;
                half = 2 ^ (e - 1);
                q' = (if r > half \<or> (r = half \<and> odd q) then q + 1 else q);
                v = q' * 2 ^ e
            in if v \<ge> 2 ^ 1024 then JInfinity negative else signed v))"

definition parseInt10 :: "jsstring \<Rightarrow> jsnum" where
  "parseInt10 s =
     (let t = dropWhile js_whitespace s;
          negative = (case t of [] \<Rightarrow> False | c # _ \<Rightarrow> c = cu CHR ''-'');
          body = (case t of [] \<Rightarrow> []
                  | c # cs \<Rightarrow> if c = cu CHR ''+'' \<or> c = cu CHR ''-'' then cs else t);
          ds = takeWhile is_digit body
      in if ds = [] then JNaN else round_to_double negative (digits_value ds))"

text \<open>\<^verbatim>\<open>Number.isInteger\<close> and the comparisons of a number with a constant.\<close>

fun isInteger :: "jsnum \<Rightarrow> bool" where
  "isInteger (JFinite q) = (q = of_int \<lfloor>q\<rfloor>)"
| "isInteger _ = False"

fun num_less :: "jsnum \<Rightarrow> rat \<Rightarrow> bool" where
  "num_less JNaN k = False"
| "num_less (JInfinity negative) k = negative"
| "num_less (JFinite q) k = (q < k)"

fun num_greater :: "jsnum \<Rightarrow> rat \<Rightarrow> bool" where
  "num_greater JNaN k = False"
| "num_greater (JInfinity negative) k = (\<not> negative)"
| "num_greater (JFinite q) k = (q > k)"

definition validatePort :: "jsval \<Rightarrow> validation_result" where
  "validatePort port =
     (let portNum = (case port of JStr s \<Rightarrow> JNum (parseInt10 s) | _ \<Rightarrow> port)
      in case portNum of
           JNum n \<Rightarrow>
             if n = JNaN then rejected ''Port must be a number''
             else if \<not> isInteger n then rejected ''Port must be an integer''
             else if num_less n 1 \<or> num_greater n 65535 then
               rejected ''Port must be between 1 and 65535''
             else accepted
         | _ \<Rightarrow> rejected ''Port must be a number'')"

section \<open>The platform\<close>

text \<open>
  \<^verbatim>\<open>JSON.parse\<close>, \<^verbatim>\<open>JSON.stringify\<close> and the conversion of a value that is not
  a string to text inside a template literal belong to the JavaScript engine, and
  \<^verbatim>\<open>socket.connect\<close> to Node's \<^verbatim>\<open>net\<close> module, not to this program: they are
  parameters of the model. \<open>JSON_parse\<close> returns the message of the \<^verbatim>\<open>SyntaxError\<close>
  it throws on the left. \<open>socket_connect port host\<close> is the error that
  \<^verbatim>\<open>socket.connect(port, host)\<close> throws while it checks its arguments, before any
  connection is started, or \<open>None\<close> when it returns.
\<close>

record platform =
  JSON_parse :: "jsstring \<Rightarrow> jsstring + jsval"
  JSON_stringify :: "jsval \<Rightarrow> jsstring"
  ToString :: "jsval \<Rightarrow> jsstring"
  socket_connect :: "jsval \<Rightarrow> jsval \<Rightarrow> jsval option"

definition template_text :: "platform \<Rightarrow> jsval \<Rightarrow> jsstring" where
  "template_text P v = (case v of JStr s \<Rightarrow> s | _ \<Rightarrow> ToString P v)"

text \<open>
  \<^verbatim>\<open>Buffer.from(text, 'utf8')\<close>: a surrogate pair is one code point of four bytes, a
  lone surrogate is replaced by U+FFFD.
\<close>

fun utf8_encode :: "jsstring \<Rightarrow> nat list" where
  "utf8_encode [] = []"
| "utf8_encode (c # cs) =
     (if c < 0x80 then c # utf8_encode cs
      else if c < 0x800 then (0xC0 + c div 64) # (0x80 + c mod 64) # utf8_encode cs
      else if 0xD800 \<le> c \<and> c \<le> 0xDBFF then
        (case cs of
           d # ds \<Rightarrow>
             if 0xDC00 \<le> d \<and> d \<le> 0xDFFF then
               (let p = 0x10000 + (c - 0xD800) * 0x400 + (d - 0xDC00)
                in (0xF0 + p div 262144) # (0x80 + (p div 4096) mod 64)
                     # (0x80 + (p div 64) mod 64) # (0x80 + p mod 64) # utf8_encode ds)
             else 0xEF # 0xBF # 0xBD # utf8_encode cs
         | [] \<Rightarrow> [0xEF, 0xBF, 0xBD])
      else if 0xDC00 \<le> c \<and> c \<le> 0xDFFF then 0xEF # 0xBF # 0xBD # utf8_encode cs
      else (0xE0 + c div 4096) # (0x80 + (c div 64) mod 64) # (0x80 + c mod 64)
             # utf8_encode cs)"

text \<open>\<^verbatim>\<open>buffer.toString('base64')\<close>: the standard alphabet, padded with \<^verbatim>\<open>=\<close>.\<close>

definition base64_alphabet :: "nat list" where
  "base64_alphabet =
     js ''ABCDEFGHIJKLMNOPQRSTUVWXYZabcdefghijklmnopqrstuvwxyz0123456789+/''"

definition base64_digit :: "nat \<Rightarrow> nat" where
  "base64_digit n = base64_alphabet ! (n mod 64)"

fun base64 :: "nat list \<Rightarrow> jsstring" where
  "base64 [] = []"
| "base64 [a] =
     [base64_digit (a div 4), base64_digit (a mod 4 * 16), cu CHR ''='', cu CHR ''='']"
| "base64 [a, b] =
     [base64_digit (a div 4), base64_digit (a mod 4 * 16 + b div 16),
      base64_digit (b mod 16 * 4), cu CHR ''='']"
| "base64 (a # b # c # rest) =
     [base64_digit (a div 4), base64_digit (a mod 4 * 16 + b div 16),
      base64_digit (b mod 16 * 4 + c div 64), base64_digit c] @ base64 rest"

section \<open>Configuration and server lookup (vw_mcp_server.js)\<close>

text \<open>
  A server object, as an entry of \<^verbatim>\<open>config.servers\<close> and as \<open>getServer\<close> returns it:
  the four properties the program reads, \<open>JUndefined\<close> for one that is absent. The loaded
  configuration: \<open>servers\<close> lists the own properties of \<^verbatim>\<open>config.servers\<close> in the order
  of \<^verbatim>\<open>Object.keys\<close>; \<open>default_server\<close> is \<^verbatim>\<open>config.default\<close>.
\<close>

record server =
  host :: jsval
  port :: jsval
  apiKey :: jsval
  name :: jsval

record config =
  servers :: "(jsstring \<times> server) list"
  default_server :: "jsstring option"

text \<open>
  \<^verbatim>\<open>config.servers[serverName]\<close> reads a property of a plain object: an own property
  first, then what every object inherits from \<^verbatim>\<open>Object.prototype\<close>. An inherited value
  is a function (or the prototype itself): truthy, with no enumerable property of its own.
\<close>

definition Object_prototype_names :: "jsstring list" where
  "Object_prototype_names =
     [js ''constructor'', js ''__defineGetter__'', js ''__defineSetter__'',
      js ''hasOwnProperty'', js ''__lookupGetter__'', js ''__lookupSetter__'',
      js ''isPrototypeOf'', js ''propertyIsEnumerable'', js ''toString'', js ''valueOf'',
      js ''__proto__'', js ''toLocaleString'']"

datatype property = Own server | Inherited | Missing

definition servers_property :: "config \<Rightarrow> jsstring \<Rightarrow> property" where
  "servers_property cfg key =
     (case map_of (servers cfg) key of
        Some entry \<Rightarrow> Own entry
      | None \<Rightarrow> if key \<in> set Object_prototype_names then Inherited else Missing)"

text \<open>\<^verbatim>\<open>a || b\<close> on values that are a string or undefined.\<close>

definition js_or :: "jsstring option \<Rightarrow> jsstring option \<Rightarrow> jsstring option" where
  "js_or a b = (case a of Some s \<Rightarrow> if s \<noteq> [] then a else b | None \<Rightarrow> b)"

definition string_or_undefined :: "jsstring option \<Rightarrow> jsstring" where
  "string_or_undefined v = (case v of Some s \<Rightarrow> s | None \<Rightarrow> js ''undefined'')"

definition optional :: "jsstring option \<Rightarrow> jsval" where
  "optional v = (case v of None \<Rightarrow> JUndefined | Some s \<Rightarrow> JStr s)"

text \<open>\<^verbatim>\<open>name || config.default || Object.keys(config.servers)[0]\<close>\<close>

definition serverName :: "config \<Rightarrow> jsstring option \<Rightarrow> jsstring option" where
  "serverName cfg name_arg =
     js_or (js_or name_arg (default_server cfg))
       (case map fst (servers cfg) of [] \<Rightarrow> None | k # _ \<Rightarrow> Some k)"

text \<open>
  \<open>getServer\<close> returns the message of the error it throws on the left. In
  \<^verbatim>\<open>{ name: serverName, ...server }\<close> a \<^verbatim>\<open>name\<close> property of the entry replaces
  \<^verbatim>\<open>serverName\<close>; an inherited value has no property to spread.
\<close>

definition getServer :: "config \<Rightarrow> jsstring option \<Rightarrow> jsstring + server" where
  "getServer cfg name_arg =
     (let key = string_or_undefined (serverName cfg name_arg)
      in case servers_property cfg key of
           Missing \<Rightarrow>
             (let available = js_join (js '', '') (map fst (servers cfg))
              in Inl (js ''Unknown server: '' @ key @ js ''. Available: '' @ available))
         | Own entry \<Rightarrow>
             Inr (if name entry = JUndefined
                  then entry\<lparr>name := optional (serverName cfg name_arg)\<rparr>
                  else entry)
         | Inherited \<Rightarrow>
             Inr \<lparr>host = JUndefined, port = JUndefined, apiKey = JUndefined,
                  name = optional (serverName cfg name_arg)\<rparr>)"

section \<open>The command channel: sendCommand\<close>

definition TIMEOUT :: nat where
  "TIMEOUT = 30000"

text \<open>
  What the socket emits after \<^verbatim>\<open>socket.connect\<close>, in order: the events the four
  handlers are registered for. \<open>OnData\<close> carries \<^verbatim>\<open>data.toString()\<close>, \<open>OnError\<close> carries
  \<^verbatim>\<open>err.code\<close> and \<^verbatim>\<open>err.message\<close>.
\<close>

datatype socket_event =
    OnConnect
  | OnData jsstring
  | OnEnd
  | OnTimeout
  | OnError "jsstring option" jsstring

datatype promise = Pending | Resolved jsval | Rejected jsval

text \<open>
  The state of one call: the promise, the \<open>response\<close> buffer, and what was done to the
  socket (objects created, the timeout armed, the \<^verbatim>\<open>connect(port, host)\<close> calls, the
  lines written, \<^verbatim>\<open>end()\<close> and \<^verbatim>\<open>destroy()\<close>).
\<close>

record call_state =
  promise :: promise
  response :: jsstring
  sockets :: nat
  timeout_armed :: "nat option"
  connects :: "(jsval \<times> jsval) list"
  written :: "jsstring list"
  write_ended :: bool
  destroyed :: bool

definition initial_state :: call_state where
  "initial_state =
     \<lparr>promise = Pending, response = [], sockets = 0, timeout_armed = None, connects = [],
      written = [], write_ended = False, destroyed = False\<rparr>"

text \<open>\<^verbatim>\<open>resolve(v)\<close>: only the first call settles the promise.\<close>

definition resolve :: "jsval \<Rightarrow> call_state \<Rightarrow> call_state" where
  "resolve v st = (case promise st of Pending \<Rightarrow> st\<lparr>promise := Resolved v\<rparr> | _ \<Rightarrow> st)"

text \<open>\<^verbatim>\<open>{ status: 'error', message }\<close>\<close>

definition error_envelope :: "jsstring \<Rightarrow> jsval" where
  "error_envelope message =
     JObj [(js ''status'', JStr (js ''error'')), (js ''message'', JStr message)]"

text \<open>
  \<^verbatim>\<open>result.status\<close> and \<^verbatim>\<open>result.code\<close>: reading a property of \<^verbatim>\<open>null\<close> or
  \<^verbatim>\<open>undefined\<close> throws a \<^verbatim>\<open>TypeError\<close> (its message on the left, in V8's wording);
  any other value yields its own property of that name or \<^verbatim>\<open>undefined\<close>, no prototype
  defining either name.
\<close>

definition read_property :: "jsval \<Rightarrow> string \<Rightarrow> jsstring + jsval" where
  "read_property v key =
     (case v of
        JNull \<Rightarrow> Inl (js ''Cannot read properties of null (reading '' @ [0x27] @ js key @ [0x27] @ js '')'')
      | JUndefined \<Rightarrow>
          Inl (js ''Cannot read properties of undefined (reading '' @ [0x27] @ js key @ [0x27] @ js '')'')
      | JObj props \<Rightarrow> (case map_of props (js key) of Some x \<Rightarrow> Inr x | None \<Rightarrow> Inr JUndefined)
      | _ \<Rightarrow> Inr JUndefined)"

text \<open>\<^verbatim>\<open>result.status === 'error' && result.code === code\<close>\<close>

definition has_error_code :: "jsval \<Rightarrow> string \<Rightarrow> jsstring + bool" where
  "has_error_code result code =
     (case read_property result ''status'' of
        Inl thrown \<Rightarrow> Inl thrown
      | Inr status \<Rightarrow>
          if status = JStr (js ''error'') then
            (case read_property result ''code'' of
               Inl thrown \<Rightarrow> Inl thrown
             | Inr c \<Rightarrow> Inr (c = JStr (js code)))
          else Inr False)"

definition first_line :: "jsstring \<Rightarrow> jsstring" where
  "first_line buffer =
     (case js_split (cu CHR ''\<newline>'') (js_trim buffer) of
        [] \<Rightarrow> js ''undefined''
      | line # _ \<Rightarrow> line)"

text \<open>The body of the \<^verbatim>\<open>'end'\<close> handler: the value it passes to \<^verbatim>\<open>resolve\<close>.\<close>

definition end_result :: "platform \<Rightarrow> server \<Rightarrow> jsstring \<Rightarrow> jsval" where
  "end_result P srv buffer =
     (let caught = (\<lambda>message. error_envelope (js ''Invalid JSON response: '' @ message))
      in case JSON_parse P (first_line buffer) of
           Inl thrown \<Rightarrow> caught thrown
         | Inr result \<Rightarrow>
             (case has_error_code result ''AUTH_REQUIRED'' of
                Inl thrown \<Rightarrow> caught thrown
              | Inr True \<Rightarrow>
                  error_envelope
                    (js ''Authentication required for '' @ [0x27] @ template_text P (name srv) @ [0x27]
                       @ js ''. Add apiKey to your config.'')
              | Inr False \<Rightarrow>
                  (case has_error_code result ''AUTH_FAILED'' of
                     Inl thrown \<Rightarrow> caught thrown
                   | Inr True \<Rightarrow>
                       error_envelope
                         (js ''Invalid API key for '' @ [0x27] @ template_text P (name srv) @ [0x27]
                            @ js ''. Check your configuration.'')
                   | Inr False \<Rightarrow> result)))"

text \<open>The line the \<^verbatim>\<open>'connect'\<close> handler writes.\<close>

definition command_line :: "platform \<Rightarrow> server \<Rightarrow> jsstring \<Rightarrow> jsstring" where
  "command_line P srv command =
     (let prefix =
            (if truthy (apiKey srv) then js ''AUTH:'' @ template_text P (apiKey srv) @ js '' ''
             else [])
      in prefix @ command @ js ''\<newline>'')"

fun socket_on :: "platform \<Rightarrow> server \<Rightarrow> jsstring \<Rightarrow> call_state \<Rightarrow> socket_event \<Rightarrow> call_state" where
  "socket_on P srv command st OnConnect =
     st\<lparr>written := written st @ [command_line P srv command], write_ended := True\<rparr>"
| "socket_on P srv command st (OnData data) = st\<lparr>response := response st @ data\<rparr>"
| "socket_on P srv command st OnEnd = resolve (end_result P srv (response st)) st"
| "socket_on P srv command st OnTimeout =
     resolve
       (error_envelope
          (js ''Connection timed out to '' @ template_text P (host srv) @ js '':''
             @ template_text P (port srv)))
       (st\<lparr>destroyed := True\<rparr>)"
| "socket_on P srv command st (OnError code message) =
     (if code = Some (js ''ECONNREFUSED'') then
        resolve
          (error_envelope
             (js ''Connection refused to '' @ template_text P (name srv) @ js '' (''
                @ template_text P (host srv) @ js '':'' @ template_text P (port srv)
                @ js ''). Is CliBridge running?''))
          st
      else resolve (error_envelope (js ''Connection error: '' @ message)) st)"

text \<open>
  The body of the promise \<open>sendCommand\<close> returns, after \<open>getServer\<close> has returned: a
  socket is created, its timeout armed, the handlers registered and
  \<^verbatim>\<open>connect(server.port, server.host)\<close> called. Only \<open>getServer\<close> stands inside
  \<^verbatim>\<open>try\<close>: an error thrown by \<^verbatim>\<open>connect\<close> leaves the body and rejects the promise.
\<close>

definition executor :: "platform \<Rightarrow> server \<Rightarrow> call_state" where
  "executor P srv =
     (let st = initial_state\<lparr>sockets := 1, timeout_armed := Some TIMEOUT,
                  connects := [(port srv, host srv)]\<rparr>
      in case socket_connect P (port srv) (host srv) of
           None \<Rightarrow> st
         | Some thrown \<Rightarrow> st\<lparr>promise := Rejected thrown\<rparr>)"

text \<open>
  \<open>sendCommand\<close>, run against the events the socket emits afterwards. An unknown server
  resolves before any socket exists. The handlers stay registered whatever became of the
  promise.
\<close>

definition sendCommand ::
  "platform \<Rightarrow> config \<Rightarrow> jsstring \<Rightarrow> jsstring option \<Rightarrow> socket_event list \<Rightarrow> call_state" where
  "sendCommand P cfg command imageName events =
     (case getServer cfg imageName of
        Inl message \<Rightarrow> resolve (error_envelope message) initial_state
      | Inr srv \<Rightarrow> foldl (socket_on P srv command) (executor P srv) events)"

section \<open>The tool handlers\<close>

text \<open>
  Each tool validates its arguments in a fixed order, returns the first failure, and
  otherwise passes one command string to \<open>sendCommand\<close>. The schema of a tool makes
  every text argument a string, \<^verbatim>\<open>side\<close> one of two words and \<^verbatim>\<open>image\<close> (here \<open>img\<close>)
  optional.
\<close>

datatype side = Instance | ClassSide

definition side_text :: "side \<Rightarrow> jsstring" where
  "side_text s = (case s of Instance \<Rightarrow> js ''instance'' | ClassSide \<Rightarrow> js ''class'')"

datatype tool_call =
    Ping
  | Classes jsstring
  | ClassInfo jsstring
  | Methods jsstring side
  | Source jsstring jsstring
  | FullSource jsstring
  | Hierarchy jsstring
  | EvalSmalltalk jsstring
  | Namespaces
  | Search jsstring
  | Senders jsstring
  | Implementors jsstring
  | Messages jsstring jsstring
  | EditMethod jsstring jsstring jsstring side
  | UndoEdit jsstring jsstring side
  | CreateClass jsstring jsstring "jsstring list" "jsstring list" "jsstring list" jsstring

text \<open>\<^verbatim>\<open>if (!r.valid) return validationError(r);\<close> followed by the rest of the handler.\<close>

definition checked ::
  "validation_result \<Rightarrow> validation_result + jsstring \<Rightarrow> validation_result + jsstring" where
  "checked r rest = (if valid r then rest else Inl r)"

text \<open>
  The command a tool call sends (on the right), or the validation failure it returns (on
  the left).
\<close>

fun tool_command :: "platform \<Rightarrow> jsstring option \<Rightarrow> tool_call \<Rightarrow> validation_result + jsstring" where
  "tool_command P img Ping =
     checked (validateServerName (optional img)) (Inr (js ''PING''))"
| "tool_command P img (Classes pattern) =
     checked (validatePattern (JStr pattern))
       (checked (validateServerName (optional img)) (Inr (js ''CLASSES '' @ pattern)))"
| "tool_command P img (ClassInfo class_name) =
     checked (validateClassName (JStr class_name))
       (checked (validateServerName (optional img)) (Inr (js ''CLASS '' @ class_name)))"
| "tool_command P img (Methods class_name sd) =
     checked (validateClassName (JStr class_name))
       (checked (validateServerName (optional img))
          (Inr (js ''METHODS '' @ class_name @ js '' '' @ side_text sd)))"
| "tool_command P img (Source class_name selector) =
     checked (validateClassName (JStr class_name))
       (checked (validateSelector (JStr selector))
          (checked (validateServerName (optional img))
             (Inr (js ''SOURCE '' @ class_name @ js '' '' @ selector))))"
| "tool_command P img (FullSource class_name) =
     checked (validateClassName (JStr class_name))
       (checked (validateServerName (optional img)) (Inr (js ''FULLSOURCE '' @ class_name)))"
| "tool_command P img (Hierarchy class_name) =
     checked (validateClassName (JStr class_name))
       (checked (validateServerName (optional img)) (Inr (js ''HIERARCHY '' @ class_name)))"
| "tool_command P img (EvalSmalltalk expression) =
     checked (validateExpression (JStr expression))
       (checked (validateServerName (optional img)) (Inr (js ''EVAL '' @ expression)))"
| "tool_command P img Namespaces =
     checked (validateServerName (optional img)) (Inr (js ''NAMESPACES''))"
| "tool_command P img (Search pattern) =
     checked (validatePattern (JStr pattern))
       (checked (validateServerName (optional img)) (Inr (js ''SEARCH '' @ pattern)))"
| "tool_command P img (Senders selector) =
     checked (validateSelector (JStr selector))
       (checked (validateServerName (optional img)) (Inr (js ''SENDERS '' @ selector)))"
| "tool_command P img (Implementors selector) =
     checked (validateSelector (JStr selector))
       (checked (validateServerName (optional img)) (Inr (js ''IMPLEMENTORS '' @ selector)))"
| "tool_command P img (Messages class_name selector) =
     checked (validateClassName (JStr class_name))
       (checked (validateSelector (JStr selector))
          (checked (validateServerName (optional img))
             (Inr (js ''MESSAGES '' @ class_name @ js '' '' @ selector))))"
| "tool_command P img (EditMethod class_name selector source sd) =
     checked (validateClassName (JStr class_name))
       (checked (validateSelector (JStr selector))
          (checked (validateSource (JStr source))
             (checked (validateServerName (optional img))
                (let encoded = base64 (utf8_encode source)
                 in Inr (js ''EDIT '' @ class_name @ js '' '' @ selector @ js '' ''
                           @ side_text sd @ js '' '' @ encoded)))))"
| "tool_command P img (UndoEdit class_name selector sd) =
     checked (validateClassName (JStr class_name))
       (checked (validateSelector (JStr selector))
          (checked (validateServerName (optional img))
             (Inr (js ''UNDO '' @ class_name @ js '' '' @ selector @ js '' '' @ side_text sd))))"
| "tool_command P img
     (CreateClass name' superclass instance_variables class_variables
        class_instance_variables category) =
     checked (validateClassName (JStr name'))
       (checked (validateClassName (JStr superclass))
          (checked (validateServerName (optional img))
             (let payload =
                    JObj [(js ''name'', JStr name'),
                          (js ''superclass'', JStr superclass),
                          (js ''instanceVariables'', JArr (map JStr instance_variables)),
                          (js ''classVariables'', JArr (map JStr class_variables)),
                          (js ''classInstanceVariables'',
                             JArr (map JStr class_instance_variables)),
                          (js ''category'', JStr category)];
                  encoded = base64 (utf8_encode (JSON_stringify P payload))
              in Inr (js ''CREATECLASS '' @ encoded))))"

section \<open>Concrete inputs\<close>

text \<open>
  The configuration of the test suite, and a platform to run examples on. Its
  \<open>JSON_parse\<close> is a table that agrees with \<^verbatim>\<open>JSON.parse\<close> on the lines the examples
  below use. Its \<open>ToString\<close> renders \<^verbatim>\<open>undefined\<close>, \<^verbatim>\<open>null\<close>, the booleans and
  the non-negative integers below \<open>10 ^ 21\<close> as JavaScript does, which covers the values
  of the examples. No example calls its \<open>JSON_stringify\<close>. Its \<open>socket_connect\<close> follows
  Node on a port that is \<^verbatim>\<open>undefined\<close> (\<^verbatim>\<open>ERR_MISSING_ARGS\<close>), \<^verbatim>\<open>null\<close> or a
  boolean (\<^verbatim>\<open>ERR_INVALID_ARG_TYPE\<close>) or a number (\<^verbatim>\<open>ERR_SOCKET_BAD_PORT\<close> unless it is
  an integer from 0 to 65535), whatever the host; no example connects to a port of another
  type. Of the error thrown only its \<^verbatim>\<open>code\<close> is kept.
\<close>

fun decimal :: "nat \<Rightarrow> jsstring" where
  "decimal n =
     (if n < 10 then [cu CHR ''0'' + n] else decimal (n div 10) @ [cu CHR ''0'' + n mod 10])"

definition example_ToString :: "jsval \<Rightarrow> jsstring" where
  "example_ToString v =
     (case v of
        JUndefined \<Rightarrow> js ''undefined''
      | JNull \<Rightarrow> js ''null''
      | JBool b \<Rightarrow> if b then js ''true'' else js ''false''
      | JNum (JFinite q) \<Rightarrow>
          if 0 \<le> q \<and> q < 10 ^ 21 \<and> q = of_int \<lfloor>q\<rfloor> then decimal (nat \<lfloor>q\<rfloor>) else []
      | _ \<Rightarrow> [])"

definition node_error :: "string \<Rightarrow> jsval" where
  "node_error code = JObj [(js ''code'', JStr (js code))]"

definition example_connect :: "jsval \<Rightarrow> jsval \<Rightarrow> jsval option" where
  "example_connect port_arg host_arg =
     (case port_arg of
        JUndefined \<Rightarrow> Some (node_error ''ERR_MISSING_ARGS'')
      | JNull \<Rightarrow> Some (node_error ''ERR_INVALID_ARG_TYPE'')
      | JBool b \<Rightarrow> Some (node_error ''ERR_INVALID_ARG_TYPE'')
      | JNum n \<Rightarrow>
          if isInteger n \<and> \<not> num_less n 0 \<and> \<not> num_greater n 65535 then None
          else Some (node_error ''ERR_SOCKET_BAD_PORT'')
      | _ \<Rightarrow> None)"

definition example_config :: config where
  "example_config =
     \<lparr>servers =
        [(js ''dev'',
            \<lparr>host = JStr (js ''dev.local''), port = JNum (JFinite 9998), apiKey = JUndefined,
             name = JUndefined\<rparr>),
         (js ''prod'',
            \<lparr>host = JStr (js ''prod.local''), port = JNum (JFinite 9999), apiKey = JUndefined,
             name = JUndefined\<rparr>)],
      default_server = Some (js ''dev'')\<rparr>"

definition example_line :: jsstring where
  \<open>example_line = js ''{"status":"ok","data":"first"}''\<close>

definition example_output :: jsstring where
  \<open>example_output = js ''{"status":"ok","data":"first"}'' @ js ''\<newline>'' @ js ''{"garbage"}''\<close>

definition example_auth_line :: jsstring where
  \<open>example_auth_line = js ''{"status":"error","code":"AUTH_REQUIRED"}''\<close>

definition example_failed_line :: jsstring where
  \<open>example_failed_line = js ''{"status":"error","code":"AUTH_FAILED"}''\<close>

definition example_parse :: "jsstring \<Rightarrow> jsstring + jsval" where
  "example_parse line =
     (if line = example_line then
        Inr (JObj [(js ''status'', JStr (js ''ok'')), (js ''data'', JStr (js ''first''))])
      else if line = example_auth_line then
        Inr (JObj [(js ''status'', JStr (js ''error'')), (js ''code'', JStr (js ''AUTH_REQUIRED''))])
      else if line = example_failed_line then
        Inr (JObj [(js ''status'', JStr (js ''error'')), (js ''code'', JStr (js ''AUTH_FAILED''))])
      else if line = js ''42'' then Inr (JNum (JFinite 42))
      else if line = [] then Inl (js ''Unexpected end of JSON input'')
      else Inl (js ''Unexpected token''))"

definition example_platform :: platform where
  "example_platform =
     \<lparr>JSON_parse = example_parse,
      JSON_stringify = (\<lambda>v. js ''{}''),
      ToString = example_ToString,
      socket_connect = example_connect\<rparr>"

text \<open>
  A server object with an API key and a \<^verbatim>\<open>name\<close> property of its own, and the
  configuration whose one entry \<^verbatim>\<open>prod\<close> is that object with a given \<^verbatim>\<open>apiKey\<close>.
\<close>

definition example_keyed :: server where
  "example_keyed =
     \<lparr>host = JStr (js ''prod.local''), port = JNum (JFinite 9999),
      apiKey = JStr (js ''vw_abc123''), name = JStr (js ''production'')\<rparr>"

definition example_keyed_config :: "jsval \<Rightarrow> config" where
  "example_keyed_config key =
     \<lparr>servers = [(js ''prod'', example_keyed\<lparr>apiKey := key\<rparr>)], default_server = None\<rparr>"

text \<open>The example output between a space and a newline in front and a newline behind.\<close>

definition example_padded :: jsstring where
  "example_padded = js '' \<newline>'' @ example_output @ js ''\<newline>''"

section \<open>The properties, in the words of the specification\<close>

definition is_lower :: "nat \<Rightarrow> bool" where
  "is_lower c \<longleftrightarrow> cu CHR ''a'' \<le> c \<and> c \<le> cu CHR ''z''"

definition is_letter :: "nat \<Rightarrow> bool" where
  "is_letter c \<longleftrightarrow> is_lower c \<or> (cu CHR ''A'' \<le> c \<and> c \<le> cu CHR ''Z'')"

definition is_alnum :: "nat \<Rightarrow> bool" where
  "is_alnum c \<longleftrightarrow> is_letter c \<or> (cu CHR ''0'' \<le> c \<and> c \<le> cu CHR ''9'')"

text \<open>
  The dangerous characters: an ASCII control character (0x00 to 0x1F, 0x7F), the backtick
  (0x60), the dollar sign or a brace.
\<close>

definition dangerous_char :: "nat \<Rightarrow> bool" where
  "dangerous_char c \<longleftrightarrow> c \<le> 0x1F \<or> c = 0x7F \<or> c \<in> set ([0x60] @ js ''${}'')"

definition binary_symbols :: "nat list" where
  "binary_symbols = js ''+-*/'' @ [0x5C] @ js ''~<>=@%|&?!,''"

text \<open>An identifier led by a character of one kind and continued by characters of another.\<close>

definition led_by :: "(nat \<Rightarrow> bool) \<Rightarrow> (nat \<Rightarrow> bool) \<Rightarrow> jsstring \<Rightarrow> bool" where
  "led_by P Q s = (case s of [] \<Rightarrow> False | c # cs \<Rightarrow> P c \<and> list_all Q cs)"

definition lower_identifier :: "jsstring \<Rightarrow> bool" where
  "lower_identifier = led_by is_lower is_alnum"

definition letter_identifier :: "jsstring \<Rightarrow> bool" where
  "letter_identifier = led_by is_letter is_alnum"

text \<open>
  The three selector shapes: unary (a lowercase-led alphanumeric identifier), binary (one
  or more of the binary symbols) and keyword (one or more lowercase-led alphanumeric
  segments, each ended by a colon); and the class name shape (letter-led alphanumeric
  segments joined by single dots).
\<close>

definition unary_shape :: "jsstring \<Rightarrow> bool" where
  "unary_shape s = lower_identifier s"

definition binary_shape :: "jsstring \<Rightarrow> bool" where
  "binary_shape s \<longleftrightarrow> s \<noteq> [] \<and> list_all (\<lambda>c. c \<in> set binary_symbols) s"

definition keyword_shape :: "jsstring \<Rightarrow> bool" where
  "keyword_shape s \<longleftrightarrow>
     (\<exists>segs. segs \<noteq> [] \<and> list_all lower_identifier segs \<and>
        s = concat (map (\<lambda>g. g @ js '':'') segs))"

definition dotted_identifier :: "jsstring \<Rightarrow> bool" where
  "dotted_identifier s \<longleftrightarrow>
     (\<exists>segs. segs \<noteq> [] \<and> list_all letter_identifier segs \<and> s = js_join (js ''.'') segs)"


text \<open>
  The own property of an object value. An error result: an object whose \<^verbatim>\<open>status\<close> is
  \<^verbatim>\<open>error\<close> and whose \<^verbatim>\<open>message\<close> is the given string. A reply that reports an
  authentication code: an object whose \<^verbatim>\<open>status\<close> is \<^verbatim>\<open>error\<close> and whose
  \<^verbatim>\<open>code\<close> is the given one.
\<close>

definition field_of :: "jsval \<Rightarrow> string \<Rightarrow> jsval option" where
  "field_of v key = (case v of JObj props \<Rightarrow> map_of props (js key) | _ \<Rightarrow> None)"

definition error_with_message :: "jsval \<Rightarrow> jsstring \<Rightarrow> bool" where
  "error_with_message v message \<longleftrightarrow>
     field_of v ''status'' = Some (JStr (js ''error'')) \<and>
     field_of v ''message'' = Some (JStr message)"

definition auth_error :: "jsval \<Rightarrow> string \<Rightarrow> bool" where
  "auth_error v code \<longleftrightarrow>
     field_of v ''status'' = Some (JStr (js ''error'')) \<and>
     field_of v ''code'' = Some (JStr (js code))"

text \<open>
  The terminal events of an exchange, the first of them in a run of events, and the text
  received before it.
\<close>

fun terminal :: "socket_event \<Rightarrow> bool" where
  "terminal OnConnect = False"
| "terminal (OnData d) = False"
| "terminal OnEnd = True"
| "terminal OnTimeout = True"
| "terminal (OnError code message) = True"

fun received :: "socket_event list \<Rightarrow> jsstring" where
  "received [] = []"
| "received (OnData d # es) = d @ received es"
| "received (OnConnect # es) = received es"
| "received (e # es) = []"

section \<open>Languages of regular expressions\<close>

definition chars_lang :: "(nat \<Rightarrow> bool) \<Rightarrow> jsstring set" where
  "chars_lang P = {s. \<exists>c. s = [c] \<and> P c}"

definition star :: "jsstring set \<Rightarrow> jsstring set" where
  "star L = {concat ws | ws. set ws \<subseteq> L}"

fun lang :: "regex \<Rightarrow> jsstring set" where
  "lang Nothing = {}"
| "lang Eps = {[]}"
| "lang AnyChar = chars_lang (\<lambda>_. True)"
| "lang (Chars rs) = chars_lang (in_class rs)"
| "lang (Cat a b) = {u @ v | u v. u \<in> lang a \<and> v \<in> lang b}"
| "lang (Alt a b) = lang a \<union> lang b"
| "lang (Star a) = star (lang a)"
| "lang (Plus a) = {u @ v | u v. u \<in> lang a \<and> v \<in> star (lang a)}"

section \<open>Regular expressions: the matcher decides the language\<close>

lemma chars_lang_simps [simp]:
  "[] \<notin> chars_lang P" "c # s \<in> chars_lang P \<longleftrightarrow> s = [] \<and> P c"
  by (auto simp: chars_lang_def)

lemma star_Nil: "[] \<in> star L"
  unfolding star_def by (rule CollectI, rule exI [of _ "[]"]) simp

lemma star_append: "u \<in> L \<Longrightarrow> v \<in> star L \<Longrightarrow> u @ v \<in> star L"
proof -
  assume u: "u \<in> L" and "v \<in> star L"
  then obtain ws where ws: "set ws \<subseteq> L" "v = concat ws"
    by (auto simp: star_def)
  have "set (u # ws) \<subseteq> L" "u @ v = concat (u # ws)"
    using u ws by auto
  then show ?thesis
    unfolding star_def by blast
qed

lemma concat_Cons_split:
  "set ws \<subseteq> L \<Longrightarrow> concat ws = c # s \<Longrightarrow>
     \<exists>u vs. c # u \<in> L \<and> set vs \<subseteq> L \<and> s = u @ concat vs"
proof (induction ws)
  case Nil
  then show ?case by simp
next
  case (Cons w ws)
  show ?case
  proof (cases w)
    case Nil
    with Cons show ?thesis by simp
  next
    case (Cons d u)
    with Cons.prems have "c # u \<in> L" "set ws \<subseteq> L" "s = u @ concat ws"
      by auto
    then show ?thesis by blast
  qed
qed

lemma star_Cons:
  "c # s \<in> star L \<longleftrightarrow> (\<exists>u v. c # u \<in> L \<and> v \<in> star L \<and> s = u @ v)"
proof
  assume "c # s \<in> star L"
  then obtain ws where "set ws \<subseteq> L" "concat ws = c # s"
    by (auto simp: star_def)
  from concat_Cons_split [OF this] show "\<exists>u v. c # u \<in> L \<and> v \<in> star L \<and> s = u @ v"
    unfolding star_def by blast
next
  assume "\<exists>u v. c # u \<in> L \<and> v \<in> star L \<and> s = u @ v"
  then obtain u v where "c # u \<in> L" "v \<in> star L" "s = u @ v"
    by blast
  then show "c # s \<in> star L"
    using star_append [of "c # u" L v] by simp
qed

lemma lang_CatI: "u \<in> lang a \<Longrightarrow> v \<in> lang b \<Longrightarrow> w = u @ v \<Longrightarrow> w \<in> lang (Cat a b)"
  by auto

lemma lang_PlusI:
  "u \<in> lang a \<Longrightarrow> v \<in> star (lang a) \<Longrightarrow> w = u @ v \<Longrightarrow> w \<in> lang (Plus a)"
  by auto

lemma nullable_lang: "nullable r \<longleftrightarrow> [] \<in> lang r"
  by (induction r) (auto simp: star_Nil)

lemma deriv_lang: "s \<in> lang (deriv c r) \<longleftrightarrow> c # s \<in> lang r"
proof (induction r arbitrary: s)
  case (Cat a b)
  show ?case
  proof
    assume "s \<in> lang (deriv c (Cat a b))"
    then consider u v where "u \<in> lang (deriv c a)" "v \<in> lang b" "s = u @ v"
      | "nullable a" "s \<in> lang (deriv c b)"
      by (auto split: if_splits)
    then show "c # s \<in> lang (Cat a b)"
    proof cases
      case 1
      then have "c # u \<in> lang a" using Cat.IH(1) by simp
      with 1 show ?thesis by (intro lang_CatI [of "c # u" a v]) simp_all
    next
      case 2
      then have "[] \<in> lang a" "c # s \<in> lang b"
        using Cat.IH(2) by (simp_all add: nullable_lang)
      then show ?thesis by (intro lang_CatI [of "[]" a "c # s"]) simp_all
    qed
  next
    assume "c # s \<in> lang (Cat a b)"
    then obtain u v where uv: "u \<in> lang a" "v \<in> lang b" "c # s = u @ v"
      by auto
    show "s \<in> lang (deriv c (Cat a b))"
    proof (cases u)
      case Nil
      with uv have "nullable a" "s \<in> lang (deriv c b)"
        using Cat.IH(2) by (simp_all add: nullable_lang)
      then show ?thesis by simp
    next
      case (Cons d u')
      with uv have "u' \<in> lang (deriv c a)" "s = u' @ v"
        using Cat.IH(1) by simp_all
      with uv show ?thesis by auto
    qed
  qed
next
  case (Star a)
  show ?case
    by (auto simp: star_Cons Star.IH)
next
  case (Plus a)
  show ?case
  proof
    assume "s \<in> lang (deriv c (Plus a))"
    then obtain u v where "c # u \<in> lang a" "v \<in> star (lang a)" "s = u @ v"
      by (auto simp: Plus.IH)
    then show "c # s \<in> lang (Plus a)"
      by (intro lang_PlusI [of "c # u" a v]) simp_all
  next
    assume "c # s \<in> lang (Plus a)"
    then obtain u v where uv: "u \<in> lang a" "v \<in> star (lang a)" "c # s = u @ v"
      by auto
    then have "c # s \<in> star (lang a)"
      using star_append [of u "lang a" v] by simp
    then show "s \<in> lang (deriv c (Plus a))"
      by (auto simp: star_Cons Plus.IH)
  qed
qed auto

lemma full_match_lang: "full_match r s \<longleftrightarrow> s \<in> lang r"
  by (induction s arbitrary: r) (simp_all add: nullable_lang deriv_lang)

lemma in_class_lower: "in_class lower_class c \<longleftrightarrow> is_lower c"
  by (simp add: in_class_def lower_class_def is_lower_def)

lemma in_class_letter: "in_class letter_class c \<longleftrightarrow> is_letter c"
  by (auto simp: in_class_def letter_class_def is_letter_def is_lower_def)

lemma in_class_alnum: "in_class alnum_class c \<longleftrightarrow> is_alnum c"
  by (auto simp: in_class_def alnum_class_def is_alnum_def is_letter_def is_lower_def)

lemma in_class_binary: "in_class binary_class c \<longleftrightarrow> c \<in> set binary_symbols"
  by (auto simp: in_class_def binary_class_def binary_symbols_def)

lemma in_class_dangerous: "in_class dangerous_class c \<longleftrightarrow> dangerous_char c"
  by (auto simp: in_class_def dangerous_class_def dangerous_char_def)

declare lang.simps(5) [simp del] lang.simps(8) [simp del]

lemma lang_Cat_iff: "s \<in> lang (Cat a b) \<longleftrightarrow> (\<exists>u v. s = u @ v \<and> u \<in> lang a \<and> v \<in> lang b)"
  by (auto simp: lang.simps(5))

lemma lang_Cat_trivial:
  "lang (Cat Eps b) = lang b" "lang (Cat Nothing b) = {}" "lang (Cat a Eps) = lang a"
  by (auto simp: lang.simps(5))

lemma star_chars: "s \<in> star (chars_lang P) \<longleftrightarrow> list_all P s"
  by (induction s) (auto simp: star_Nil star_Cons)

lemma lang_anchored: "regexp_test (RegExp True r True) s \<longleftrightarrow> s \<in> lang r"
  by (simp add: full_match_lang lang_Cat_trivial)

lemma star_AnyChar: "s \<in> star (chars_lang (\<lambda>_. True))"
  by (simp add: star_chars list_all_iff)

lemma lang_Cat_Chars:
  "s \<in> lang (Cat (Chars rs) b) \<longleftrightarrow>
     (case s of [] \<Rightarrow> False | c # cs \<Rightarrow> in_class rs c \<and> cs \<in> lang b)"
proof (cases s)
  case Nil
  then show ?thesis using nullable_lang [of "Cat (Chars rs) b"] by simp
next
  case (Cons c cs)
  have "c # cs \<in> lang (Cat (Chars rs) b) \<longleftrightarrow> cs \<in> lang (deriv c (Cat (Chars rs) b))"
    by (simp only: deriv_lang)
  also have "\<dots> \<longleftrightarrow> in_class rs c \<and> cs \<in> lang b"
    by (simp add: lang_Cat_trivial)
  finally show ?thesis using Cons by simp
qed

lemma lang_search_chars:
  "regexp_test (RegExp False (Chars rs) False) s \<longleftrightarrow> list_ex (in_class rs) s"
proof
  assume "regexp_test (RegExp False (Chars rs) False) s"
  then obtain u w where "s = u @ w" "w \<in> lang (Cat (Chars rs) (Star AnyChar))"
    by (auto simp: full_match_lang lang_Cat_iff [of s])
  then show "list_ex (in_class rs) s"
    by (auto simp: lang_Cat_Chars list_ex_iff split: list.splits)
next
  assume "list_ex (in_class rs) s"
  then obtain c where c: "c \<in> set s" "in_class rs c"
    by (auto simp: list_ex_iff)
  then obtain u v where s: "s = u @ c # v"
    by (auto simp: in_set_conv_decomp)
  have "c # v \<in> lang (Cat (Chars rs) (Star AnyChar))"
    using c by (simp add: lang_Cat_Chars star_AnyChar)
  from lang_CatI [OF _ this, of u "Star AnyChar" "u @ c # v"]
  have "u @ c # v \<in> lang (Cat (Star AnyChar) (Cat (Chars rs) (Star AnyChar)))"
    by (simp add: star_AnyChar)
  then show "regexp_test (RegExp False (Chars rs) False) s"
    using s by (simp add: full_match_lang)
qed

lemma chars_lang_iff: "s \<in> chars_lang P \<longleftrightarrow> (\<exists>c. s = [c] \<and> P c)"
  by (auto simp: chars_lang_def)

lemma in_class_single: "in_class [(a, a)] c \<longleftrightarrow> c = a"
  by (auto simp: in_class_def)

lemma led_by_Cons: "led_by P Q (c # cs) \<longleftrightarrow> P c \<and> list_all Q cs"
  by (simp add: led_by_def)

lemma led_byE: "led_by P Q s \<Longrightarrow> (\<And>c cs. s = c # cs \<Longrightarrow> P c \<Longrightarrow> list_all Q cs \<Longrightarrow> R) \<Longrightarrow> R"
  by (cases s) (simp_all add: led_by_def)

lemma lang_identifier:
  "s \<in> lang (Cat (Chars H) (Star (Chars T))) \<longleftrightarrow> led_by (in_class H) (in_class T) s"
  by (simp add: lang_Cat_Chars star_chars led_by_def split: list.splits)

lemma class_eta:
  "in_class lower_class = is_lower" "in_class letter_class = is_letter"
  "in_class alnum_class = is_alnum" "in_class dangerous_class = dangerous_char"
  "in_class binary_class = (\<lambda>c. c \<in> set binary_symbols)"
  by (simp_all add: fun_eq_iff in_class_lower in_class_letter in_class_alnum
        in_class_dangerous in_class_binary)

lemma unary_lang:
  "regexp_test UNARY_SELECTOR_PATTERN s \<longleftrightarrow> unary_shape s"
  unfolding UNARY_SELECTOR_PATTERN_def lang_anchored lang_identifier
  by (simp add: unary_shape_def lower_identifier_def class_eta)

lemma plus_chars: "s \<in> lang (Plus (Chars rs)) \<longleftrightarrow> s \<noteq> [] \<and> list_all (in_class rs) s"
proof (cases s)
  case Nil
  then show ?thesis using nullable_lang [of "Plus (Chars rs)"] by simp
next
  case (Cons c cs)
  have "c # cs \<in> lang (Plus (Chars rs)) \<longleftrightarrow> cs \<in> lang (deriv c (Plus (Chars rs)))"
    by (simp only: deriv_lang)
  also have "\<dots> \<longleftrightarrow> in_class rs c \<and> list_all (in_class rs) cs"
    by (simp add: lang_Cat_trivial star_chars)
  finally show ?thesis using Cons by simp
qed

lemma binary_lang:
  "regexp_test BINARY_SELECTOR_PATTERN s \<longleftrightarrow> binary_shape s"
  unfolding BINARY_SELECTOR_PATTERN_def lang_anchored plus_chars
  by (simp add: binary_shape_def class_eta)

lemma lang_Plus_iff:
  "s \<in> lang (Plus a) \<longleftrightarrow> (\<exists>ws. ws \<noteq> [] \<and> set ws \<subseteq> lang a \<and> s = concat ws)"
proof
  assume "s \<in> lang (Plus a)"
  then obtain u ws where "u \<in> lang a" "set ws \<subseteq> lang a" "s = u @ concat ws"
    by (auto simp: lang.simps(8) star_def)
  then have "u # ws \<noteq> []" "set (u # ws) \<subseteq> lang a" "s = concat (u # ws)"
    by simp_all
  then show "\<exists>ws. ws \<noteq> [] \<and> set ws \<subseteq> lang a \<and> s = concat ws"
    by blast
next
  assume "\<exists>ws. ws \<noteq> [] \<and> set ws \<subseteq> lang a \<and> s = concat ws"
  then obtain u ws where "u \<in> lang a" "set ws \<subseteq> lang a" "s = u @ concat ws"
    by (auto simp: neq_Nil_conv)
  then show "s \<in> lang (Plus a)"
    by (auto simp: lang.simps(8) star_def)
qed

lemma star_segments:
  assumes "\<And>w. w \<in> L \<longleftrightarrow> (\<exists>g. P g \<and> w = f g)"
  shows "v \<in> star L \<longleftrightarrow> (\<exists>gs. list_all P gs \<and> v = concat (map f gs))"
proof
  assume "v \<in> star L"
  then obtain ws where ws: "set ws \<subseteq> L" "v = concat ws"
    by (auto simp: star_def)
  have "\<exists>gs. list_all P gs \<and> ws = map f gs"
    using ws(1)
  proof (induction ws)
    case Nil
    then show ?case by simp
  next
    case (Cons w ws)
    then obtain gs where gs: "list_all P gs" "ws = map f gs"
      by auto
    from Cons.prems obtain g where g: "P g" "w = f g"
      using assms by auto
    have "list_all P (g # gs) \<and> w # ws = map f (g # gs)"
      using gs g by simp
    then show ?case ..
  qed
  with ws show "\<exists>gs. list_all P gs \<and> v = concat (map f gs)"
    by blast
next
  assume "\<exists>gs. list_all P gs \<and> v = concat (map f gs)"
  then obtain gs where gs: "list_all P gs" "v = concat (map f gs)"
    by blast
  have "set (map f gs) \<subseteq> L"
    using gs(1) assms by (auto simp: list_all_iff)
  with gs(2) show "v \<in> star L"
    unfolding star_def by blast
qed

lemma keyword_segment:
  "w \<in> lang (Cat (Chars H) (Cat (Star (Chars T)) (Chars [(d, d)])))
   \<longleftrightarrow> (\<exists>g. led_by (in_class H) (in_class T) g \<and> w = g @ [d])"
proof
  assume "w \<in> lang (Cat (Chars H) (Cat (Star (Chars T)) (Chars [(d, d)])))"
  then obtain c cs where w: "w = c # cs" "in_class H c"
      "cs \<in> lang (Cat (Star (Chars T)) (Chars [(d, d)]))"
    by (cases w) (simp_all add: lang_Cat_Chars)
  then obtain u v where "cs = u @ v" "list_all (in_class T) u" "v = [d]"
    by (auto simp: lang_Cat_iff [of cs] star_chars chars_lang_iff in_class_single)
  with w have "led_by (in_class H) (in_class T) (c # u) \<and> w = (c # u) @ [d]"
    by (simp add: led_by_Cons)
  then show "\<exists>g. led_by (in_class H) (in_class T) g \<and> w = g @ [d]" ..
next
  assume "\<exists>g. led_by (in_class H) (in_class T) g \<and> w = g @ [d]"
  then obtain g where g: "led_by (in_class H) (in_class T) g" "w = g @ [d]"
    by blast
  from g(1) obtain c u where cu: "g = c # u" "in_class H c" "list_all (in_class T) u"
    by (rule led_byE)
  have "u @ [d] \<in> lang (Cat (Star (Chars T)) (Chars [(d, d)]))"
    by (rule lang_CatI [of u _ "[d]"]) (simp_all add: star_chars cu in_class_single)
  with g cu show "w \<in> lang (Cat (Chars H) (Cat (Star (Chars T)) (Chars [(d, d)])))"
    by (simp add: lang_Cat_Chars)
qed

lemma keyword_segments:
  "s \<in> lang (Plus (Cat (Chars H) (Cat (Star (Chars T)) (Chars [(d, d)]))))
   \<longleftrightarrow> (\<exists>segs. segs \<noteq> [] \<and> list_all (led_by (in_class H) (in_class T)) segs \<and>
          s = concat (map (\<lambda>g. g @ [d]) segs))"
proof -
  let ?R = "Cat (Chars H) (Cat (Star (Chars T)) (Chars [(d, d)]))"
  let ?P = "led_by (in_class H) (in_class T)"
  have "s \<in> lang (Plus ?R) \<longleftrightarrow> (\<exists>u v. s = u @ v \<and> u \<in> lang ?R \<and> v \<in> star (lang ?R))"
    by (auto simp: lang.simps(8))
  also have "\<dots> \<longleftrightarrow> (\<exists>g gs. s = (g @ [d]) @ concat (map (\<lambda>g. g @ [d]) gs) \<and> ?P g \<and> list_all ?P gs)"
    unfolding star_segments [of "lang ?R" ?P "\<lambda>g. g @ [d]", OF keyword_segment] keyword_segment
    by blast
  also have "\<dots> \<longleftrightarrow> (\<exists>segs. segs \<noteq> [] \<and> list_all ?P segs \<and> s = concat (map (\<lambda>g. g @ [d]) segs))"
  proof
    assume "\<exists>g gs. s = (g @ [d]) @ concat (map (\<lambda>g. g @ [d]) gs) \<and> ?P g \<and> list_all ?P gs"
    then obtain g gs where "s = (g @ [d]) @ concat (map (\<lambda>g. g @ [d]) gs)" "?P g" "list_all ?P gs"
      by blast
    then have "g # gs \<noteq> [] \<and> list_all ?P (g # gs) \<and> s = concat (map (\<lambda>g. g @ [d]) (g # gs))"
      by simp
    then show "\<exists>segs. segs \<noteq> [] \<and> list_all ?P segs \<and> s = concat (map (\<lambda>g. g @ [d]) segs)" ..
  next
    assume "\<exists>segs. segs \<noteq> [] \<and> list_all ?P segs \<and> s = concat (map (\<lambda>g. g @ [d]) segs)"
    then obtain segs where segs: "segs \<noteq> []" "list_all ?P segs" "s = concat (map (\<lambda>g. g @ [d]) segs)"
      by blast
    then obtain g gs where "segs = g # gs"
      by (cases segs) simp_all
    with segs have "s = (g @ [d]) @ concat (map (\<lambda>g. g @ [d]) gs) \<and> ?P g \<and> list_all ?P gs"
      by simp
    then show "\<exists>g gs. s = (g @ [d]) @ concat (map (\<lambda>g. g @ [d]) gs) \<and> ?P g \<and> list_all ?P gs"
      by blast
  qed
  finally show ?thesis .
qed

lemma keyword_lang:
  "regexp_test KEYWORD_SELECTOR_PATTERN s \<longleftrightarrow> keyword_shape s"
  unfolding KEYWORD_SELECTOR_PATTERN_def lang_anchored keyword_segments
  by (simp add: keyword_shape_def lower_identifier_def class_eta)

lemma js_join_Cons: "js_join sep (g # gs) = g @ concat (map (\<lambda>h. sep @ h) gs)"
  by (induction gs arbitrary: g) simp_all

lemma dot_segment:
  "w \<in> lang (Cat (Chars [(d, d)]) (Cat (Chars H) (Star (Chars T))))
   \<longleftrightarrow> (\<exists>g. led_by (in_class H) (in_class T) g \<and> w = [d] @ g)"
  by (cases w) (auto simp: lang_Cat_Chars [of _ "[(d, d)]"] lang_identifier in_class_single)

lemma dotted_segments:
  "s \<in> lang (Cat (Chars H) (Cat (Star (Chars T))
               (Star (Cat (Chars [(d, d)]) (Cat (Chars H) (Star (Chars T)))))))
   \<longleftrightarrow> (\<exists>segs. segs \<noteq> [] \<and> list_all (led_by (in_class H) (in_class T)) segs \<and>
          s = js_join [d] segs)"
proof -
  let ?D = "Cat (Chars [(d, d)]) (Cat (Chars H) (Star (Chars T)))"
  let ?P = "led_by (in_class H) (in_class T)"
  have tail: "v \<in> lang (Star ?D) \<longleftrightarrow>
      (\<exists>gs. list_all ?P gs \<and> v = concat (map (\<lambda>g. [d] @ g) gs))" for v
    using star_segments [of "lang ?D" ?P "\<lambda>g. [d] @ g" v, OF dot_segment] by simp
  show ?thesis
  proof
    assume "s \<in> lang (Cat (Chars H) (Cat (Star (Chars T)) (Star ?D)))"
    then obtain c cs where s: "s = c # cs" "in_class H c"
        "cs \<in> lang (Cat (Star (Chars T)) (Star ?D))"
      by (cases s) (simp_all add: lang_Cat_Chars [of _ H])
    from s(3) obtain u v where uv: "cs = u @ v" "u \<in> lang (Star (Chars T))" "v \<in> lang (Star ?D)"
      unfolding lang_Cat_iff [of cs] by blast
    from uv(3) obtain gs where gs: "list_all ?P gs" "v = concat (map (\<lambda>g. [d] @ g) gs)"
      unfolding tail by blast
    have "(c # u) # gs \<noteq> [] \<and> list_all ?P ((c # u) # gs) \<and> s = js_join [d] ((c # u) # gs)"
      using s uv gs by (simp add: js_join_Cons led_by_Cons star_chars)
    then show "\<exists>segs. segs \<noteq> [] \<and> list_all ?P segs \<and> s = js_join [d] segs" ..
  next
    assume "\<exists>segs. segs \<noteq> [] \<and> list_all ?P segs \<and> s = js_join [d] segs"
    then obtain g gs where g: "?P g" "list_all ?P gs" "s = g @ concat (map (\<lambda>h. [d] @ h) gs)"
      by (auto simp: neq_Nil_conv js_join_Cons)
    from g(1) obtain c u where cu: "g = c # u" "in_class H c" "list_all (in_class T) u"
      by (rule led_byE)
    have "concat (map (\<lambda>h. [d] @ h) gs) \<in> lang (Star ?D)"
      unfolding tail using g(2) by blast
    then have "u @ concat (map (\<lambda>h. [d] @ h) gs) \<in> lang (Cat (Star (Chars T)) (Star ?D))"
      using lang_CatI [of u "Star (Chars T)" "concat (map (\<lambda>h. [d] @ h) gs)" "Star ?D"] cu
      by (simp add: star_chars)
    with g cu show "s \<in> lang (Cat (Chars H) (Cat (Star (Chars T)) (Star ?D)))"
      by (simp add: lang_Cat_Chars [of _ H])
  qed
qed

lemma identifier_lang:
  "regexp_test IDENTIFIER_PATTERN s \<longleftrightarrow> dotted_identifier s"
  unfolding IDENTIFIER_PATTERN_def lang_anchored dotted_segments
  by (simp add: dotted_identifier_def letter_identifier_def class_eta)

section \<open>The validators\<close>

lemma accepted_valid: "valid accepted"
  by (simp add: accepted_def)

lemma dangerous_test: "regexp_test DANGEROUS_CHARS s \<longleftrightarrow> list_ex dangerous_char s"
  unfolding DANGEROUS_CHARS_def lang_search_chars by (simp add: class_eta)

lemma rejected_invalid: "\<not> valid (rejected msg)"
  by (simp add: rejected_def)

lemma validateSelector_iff:
  "valid (validateSelector (JStr s)) \<longleftrightarrow>
     s \<noteq> [] \<and> length s \<le> MAX_INPUT_LENGTH \<and> \<not> list_ex dangerous_char s \<and>
     (unary_shape s \<or> binary_shape s \<or> keyword_shape s)"
  by (auto simp: validateSelector_def Let_def accepted_valid rejected_invalid dangerous_test
        unary_lang binary_lang keyword_lang)

lemma validateClassName_iff:
  "valid (validateClassName (JStr s)) \<longleftrightarrow>
     s \<noteq> [] \<and> length s \<le> MAX_INPUT_LENGTH \<and> \<not> list_ex dangerous_char s \<and>
     dotted_identifier s"
  by (auto simp: validateClassName_def accepted_valid rejected_invalid dangerous_test
        identifier_lang)

lemma no_empty_selector: "\<not> (unary_shape [] \<or> binary_shape [] \<or> keyword_shape [])"
proof -
  have "\<not> regexp_test UNARY_SELECTOR_PATTERN []" "\<not> regexp_test BINARY_SELECTOR_PATTERN []"
    "\<not> regexp_test KEYWORD_SELECTOR_PATTERN []"
    by (simp_all add: UNARY_SELECTOR_PATTERN_def BINARY_SELECTOR_PATTERN_def
          KEYWORD_SELECTOR_PATTERN_def)
  then show ?thesis
    by (simp only: unary_lang binary_lang keyword_lang) simp
qed

lemma no_empty_class_name: "\<not> dotted_identifier []"
proof -
  have "\<not> regexp_test IDENTIFIER_PATTERN []"
    by (simp add: IDENTIFIER_PATTERN_def)
  then show ?thesis
    using identifier_lang [of "[]"] by blast
qed

lemmas validator_defs =
  validateClassName_def validateSelector_def MAX_INPUT_LENGTH_def DANGEROUS_CHARS_def
  dangerous_class_def in_class_def IDENTIFIER_PATTERN_def UNARY_SELECTOR_PATTERN_def
  BINARY_SELECTOR_PATTERN_def KEYWORD_SELECTOR_PATTERN_def lower_class_def alnum_class_def
  letter_class_def binary_class_def accepted_def rejected_def

lemma example_Core_Object: "valid (validateClassName (JStr (js ''Core.Object'')))"
  by (simp add: validator_defs)

lemma example_at_put: "valid (validateSelector (JStr (js ''at:put:'')))"
  by (simp add: validator_defs)

lemma example_123Class: "\<not> valid (validateClassName (JStr (js ''123Class'')))"
  by (simp add: validator_defs)

lemma example_backtick:
  "\<not> valid (validateClassName (JStr (js ''Class'' @ [0x60] @ js ''whoami'' @ [0x60])))"
  by (simp add: validator_defs)

lemma example_Selector: "\<not> valid (validateSelector (JStr (js ''Selector'')))"
  by (simp add: validator_defs)

text \<open>
  Claim C8. For every string that passes the shared length gate (at most 1000 units) and
  the dangerous-character gate, \<open>validateSelector\<close> accepts it exactly when it has one of
  the three selector shapes (unary, binary, keyword), and \<open>validateClassName\<close> accepts it
  exactly when it is a dot-segmented, letter-led alphanumeric identifier. In particular
  \<^verbatim>\<open>Core.Object\<close> is a valid class name and \<^verbatim>\<open>at:put:\<close> a valid selector, while the
  class names \<^verbatim>\<open>123Class\<close> and \<^verbatim>\<open>Class\<close> followed by a backtick-quoted
  \<^verbatim>\<open>whoami\<close>, and the selector \<^verbatim>\<open>Selector\<close>, are rejected.
\<close>

theorem selector_and_class_name_shapes:
  "(length s \<le> MAX_INPUT_LENGTH \<and> \<not> list_ex dangerous_char s \<longrightarrow>
      (valid (validateSelector (JStr s)) \<longleftrightarrow>
         unary_shape s \<or> binary_shape s \<or> keyword_shape s) \<and>
      (valid (validateClassName (JStr s)) \<longleftrightarrow> dotted_identifier s))
   \<and> valid (validateClassName (JStr (js ''Core.Object'')))
   \<and> valid (validateSelector (JStr (js ''at:put:'')))
   \<and> \<not> valid (validateClassName (JStr (js ''123Class'')))
   \<and> \<not> valid (validateClassName (JStr (js ''Class'' @ [0x60] @ js ''whoami'' @ [0x60])))
   \<and> \<not> valid (validateSelector (JStr (js ''Selector'')))"
proof -
  have "valid (validateSelector (JStr s)) \<longleftrightarrow>
          unary_shape s \<or> binary_shape s \<or> keyword_shape s"
    if "length s \<le> MAX_INPUT_LENGTH" "\<not> list_ex dangerous_char s"
    using that no_empty_selector by (cases "s = []") (simp_all add: validateSelector_iff)
  moreover have "valid (validateClassName (JStr s)) \<longleftrightarrow> dotted_identifier s"
    if "length s \<le> MAX_INPUT_LENGTH" "\<not> list_ex dangerous_char s"
    using that no_empty_class_name by (cases "s = []") (simp_all add: validateClassName_iff)
  ultimately show ?thesis
    using example_Core_Object example_at_put example_123Class example_backtick example_Selector
    by blast
qed

theorem selector_and_class_name_shapes_witness:
  "length (js ''at:put:'') \<le> MAX_INPUT_LENGTH \<and> \<not> list_ex dangerous_char (js ''at:put:'')
   \<and> keyword_shape (js ''at:put:'')
   \<and> length (js ''Core.Object'') \<le> MAX_INPUT_LENGTH
   \<and> \<not> list_ex dangerous_char (js ''Core.Object'')
   \<and> dotted_identifier (js ''Core.Object'')"
proof -
  have gates: "length (js ''at:put:'') \<le> MAX_INPUT_LENGTH"
      "\<not> list_ex dangerous_char (js ''at:put:'')"
      "length (js ''Core.Object'') \<le> MAX_INPUT_LENGTH"
      "\<not> list_ex dangerous_char (js ''Core.Object'')"
    by (simp_all add: MAX_INPUT_LENGTH_def dangerous_char_def)
  have not_other: "\<not> unary_shape (js ''at:put:'')" "\<not> binary_shape (js ''at:put:'')"
    by (simp_all add: unary_shape_def lower_identifier_def led_by_def is_alnum_def is_letter_def
          is_lower_def binary_shape_def binary_symbols_def)
  from selector_and_class_name_shapes [of "js ''at:put:''"] gates not_other
  have "keyword_shape (js ''at:put:'')" by blast
  moreover from selector_and_class_name_shapes [of "js ''Core.Object''"] gates
  have "dotted_identifier (js ''Core.Object'')" by blast
  ultimately show ?thesis using gates by blast
qed

lemma validateSource_iff:
  "valid (validateSource (JStr s)) \<longleftrightarrow>
     s \<noteq> [] \<and> length s \<le> MAX_SOURCE_LENGTH \<and> 0 \<notin> set s"
  by (auto simp: validateSource_def accepted_valid rejected_invalid)

text \<open>
  Claim C9, amended. \<open>validateSource\<close> accepts a string exactly when it is not empty, has
  at most 100,000 code units and contains no null byte: besides the ceiling and the
  null-byte check the source has a third gate, which rejects the empty string.
\<close>

theorem validateSource_nonempty_ceiling_null:
  "valid (validateSource (JStr s)) \<longleftrightarrow> s \<noteq> [] \<and> length s \<le> 100000 \<and> 0 \<notin> set s"
  using validateSource_iff [of s] by (simp add: MAX_SOURCE_LENGTH_def)

theorem validateSource_nonempty_ceiling_null_witness:
  "valid (validateSource (JStr (js ''myMethod''))) \<and> \<not> valid (validateSource (JStr [0]))"
  using validateSource_nonempty_ceiling_null [of "js ''myMethod''"]
    validateSource_nonempty_ceiling_null [of "[0]"]
  by simp

text \<open>
  Claim C9 as stated fails at the empty string: it is within the ceiling and has no null
  byte, and \<open>validateSource\<close> rejects it.
\<close>

theorem validateSource_rejects_empty:
  "length ([] :: jsstring) \<le> 100000 \<and> 0 \<notin> set ([] :: jsstring)
   \<and> \<not> valid (validateSource (JStr []))"
  by (simp add: validateSource_def rejected_def)

section \<open>Runs of the command channel\<close>

lemma resolve_simps:
  "promise st = Pending \<Longrightarrow> promise (resolve v st) = Resolved v"
  "promise st = Resolved w \<Longrightarrow> resolve v st = st"
  "promise st = Rejected x \<Longrightarrow> resolve v st = st"
  "response (resolve v st) = response st"
  "written (resolve v st) = written st"
  "sockets (resolve v st) = sockets st"
  "connects (resolve v st) = connects st"
  "timeout_armed (resolve v st) = timeout_armed st"
  by (simp_all add: resolve_def split: promise.splits)




lemma socket_on_settled:
  "promise st = Resolved v \<Longrightarrow> promise (socket_on P srv command st e) = Resolved v"
  by (cases e) (simp_all add: resolve_simps)

lemma run_settled:
  "promise st = Resolved v \<Longrightarrow> promise (foldl (socket_on P srv command) st evs) = Resolved v"
  by (induction evs arbitrary: st) (simp_all add: socket_on_settled)

lemma socket_on_rejected:
  "promise st = Rejected x \<Longrightarrow> promise (socket_on P srv command st e) = Rejected x"
  by (cases e) (simp_all add: resolve_simps)

lemma run_rejected:
  "promise st = Rejected x \<Longrightarrow> promise (foldl (socket_on P srv command) st evs) = Rejected x"
  by (induction evs arbitrary: st) (simp_all add: socket_on_rejected)

lemma socket_on_sockets:
  "sockets (socket_on P srv command st e) = sockets st"
  "connects (socket_on P srv command st e) = connects st"
  "timeout_armed (socket_on P srv command st e) = timeout_armed st"
  by (cases e; simp add: resolve_simps)+

lemma run_sockets:
  "sockets (foldl (socket_on P srv command) st evs) = sockets st"
  "connects (foldl (socket_on P srv command) st evs) = connects st"
  "timeout_armed (foldl (socket_on P srv command) st evs) = timeout_armed st"
  by (induction evs arbitrary: st; simp add: socket_on_sockets)+

text \<open>A result of the shape \<^verbatim>\<open>{ status: 'error', message }\<close> is an error with that message.\<close>

lemma error_envelope_message: "error_with_message (error_envelope msg) msg"
  by (simp add: error_with_message_def field_of_def error_envelope_def)

text \<open>What a terminal event resolves a pending promise with.\<close>

lemma socket_on_terminal:
  assumes "promise st = Pending"
  shows "promise (socket_on P srv command st OnEnd) = Resolved (end_result P srv (response st))"
    and "promise (socket_on P srv command st OnTimeout) =
           Resolved (error_envelope
             (js ''Connection timed out to '' @ template_text P (host srv) @ js '':''
                @ template_text P (port srv)))"
    and "promise (socket_on P srv command st (OnError code message)) =
           Resolved (error_envelope
             (if code = Some (js ''ECONNREFUSED'')
              then js ''Connection refused to '' @ template_text P (name srv) @ js '' (''
                     @ template_text P (host srv) @ js '':'' @ template_text P (port srv)
                     @ js ''). Is CliBridge running?''
              else js ''Connection error: '' @ message))"
  using assms by (simp_all add: resolve_simps)

lemma socket_on_terminal_resolves:
  "terminal t \<Longrightarrow> promise st = Pending \<Longrightarrow>
     \<exists>v. promise (socket_on P srv command st t) = Resolved v"
  by (cases t) (auto simp: resolve_simps)

lemma socket_on_terminal_cong:
  "terminal t \<Longrightarrow> promise st = Pending \<Longrightarrow> promise st' = Pending \<Longrightarrow>
     response st = response st' \<Longrightarrow>
     promise (socket_on P srv command st t) = promise (socket_on P srv command st' t)"
  by (cases t) (simp_all add: resolve_simps)

lemma run_pending:
  "promise st = Pending \<Longrightarrow> find terminal evs = None \<Longrightarrow>
     promise (foldl (socket_on P srv command) st evs) = Pending \<and>
     response (foldl (socket_on P srv command) st evs) = response st @ received evs"
proof (induction evs arbitrary: st)
  case Nil
  then show ?case by simp
next
  case (Cons e evs)
  then show ?case by (cases e) (simp_all split: if_splits)
qed



lemma run_first_terminal:
  "promise st = Pending \<Longrightarrow> find terminal evs = Some t \<Longrightarrow>
   promise st' = Pending \<Longrightarrow> response st' = response st @ received evs \<Longrightarrow>
     promise (foldl (socket_on P srv command) st evs) = promise (socket_on P srv command st' t)"
proof (induction evs arbitrary: st)
  case Nil
  then show ?case by simp
next
  case (Cons e evs)
  show ?case
  proof (cases "terminal e")
    case True
    with Cons.prems have e: "t = e" by simp
    from True Cons.prems(4) have "response st' = response st"
      unfolding e by (cases e) simp_all
    from socket_on_terminal_cong [OF True Cons.prems(1,3) this [symmetric]]
    have same: "promise (socket_on P srv command st e) = promise (socket_on P srv command st' e)" .
    obtain v where v: "promise (socket_on P srv command st e) = Resolved v"
      using socket_on_terminal_resolves [OF True Cons.prems(1)] by blast
    have "promise (foldl (socket_on P srv command) (socket_on P srv command st e) evs) = Resolved v"
      by (rule run_settled [OF v])
    with same v show ?thesis
      unfolding e by simp
  next
    case False
    with Cons.prems have t: "find terminal evs = Some t" by simp
    from False Cons.prems(1) have p: "promise (socket_on P srv command st e) = Pending"
      by (cases e) simp_all
    from False Cons.prems(4)
    have "response st' = response (socket_on P srv command st e) @ received evs"
      by (cases e) simp_all
    from Cons.IH [OF p t Cons.prems(3) this] show ?thesis
      by simp
  qed
qed

text \<open>The state in which the body of the promise leaves the call.\<close>

lemma executor_simps:
  "response (executor P srv) = []"
  "written (executor P srv) = []"
  "sockets (executor P srv) = 1"
  "connects (executor P srv) = [(port srv, host srv)]"
  "timeout_armed (executor P srv) = Some TIMEOUT"
  by (simp_all add: executor_def initial_state_def Let_def split: option.splits)

lemma executor_promise:
  "socket_connect P (port srv) (host srv) = None \<Longrightarrow> promise (executor P srv) = Pending"
  "socket_connect P (port srv) (host srv) = Some thrown \<Longrightarrow>
     promise (executor P srv) = Rejected thrown"
  by (simp_all add: executor_def initial_state_def Let_def)

lemma sendCommand_known:
  "getServer cfg nm = Inr srv \<Longrightarrow>
     sendCommand P cfg command nm evs = foldl (socket_on P srv command) (executor P srv) evs"
  by (simp add: sendCommand_def)

lemma sendCommand_unknown:
  "getServer cfg nm = Inl message \<Longrightarrow>
     sendCommand P cfg command nm evs = initial_state\<lparr>promise := Resolved (error_envelope message)\<rparr>"
  by (simp add: sendCommand_def resolve_def initial_state_def)

lemma received_chunks: "received (OnConnect # map OnData chunks @ [OnEnd]) = concat chunks"
  by (induction chunks) simp_all

lemma find_chunks: "find terminal (OnConnect # map OnData chunks @ [OnEnd]) = Some OnEnd"
  by (induction chunks) simp_all

lemma sendCommand_terminal:
  assumes srv: "getServer cfg nm = Inr srv"
    and ok: "socket_connect P (port srv) (host srv) = None"
    and t: "find terminal evs = Some t"
  shows "promise (sendCommand P cfg command nm evs) =
           promise (socket_on P srv command (executor P srv\<lparr>response := received evs\<rparr>) t)"
proof -
  let ?st = "executor P srv"
  let ?st' = "?st\<lparr>response := received evs\<rparr>"
  have st: "promise ?st = Pending" "promise ?st' = Pending"
      "response ?st' = response ?st @ received evs"
    by (simp_all add: executor_promise(1) [OF ok] executor_simps)
  from run_first_terminal [OF st(1) t st(2,3), of P srv command]
  show ?thesis
    by (simp add: sendCommand_known [OF srv])
qed

lemma sendCommand_end:
  assumes "getServer cfg nm = Inr srv" and "socket_connect P (port srv) (host srv) = None"
    and "find terminal evs = Some OnEnd"
  shows "promise (sendCommand P cfg command nm evs) = Resolved (end_result P srv (received evs))"
proof -
  have "promise (executor P srv\<lparr>response := received evs\<rparr>) = Pending"
    by (simp add: executor_promise(1) [OF assms(2)])
  from socket_on_terminal(1) [OF this, where P = P and srv = srv and command = command] sendCommand_terminal [OF assms]
  show ?thesis by simp
qed



lemma sendCommand_clean_close:
  assumes "getServer cfg nm = Inr srv" and "socket_connect P (port srv) (host srv) = None"
  shows "promise (sendCommand P cfg command nm (OnConnect # map OnData chunks @ [OnEnd]))
           = Resolved (end_result P srv (concat chunks))"
proof -
  have "find terminal (OnConnect # map OnData chunks @ [OnEnd]) = Some OnEnd"
    by (rule find_chunks)
  from sendCommand_end [OF assms this, where command = command] show ?thesis
    by (simp only: received_chunks)
qed



lemma sendCommand_pending:
  assumes "getServer cfg nm = Inr srv" and "socket_connect P (port srv) (host srv) = None"
    and "find terminal evs = None"
  shows "promise (sendCommand P cfg command nm evs) = Pending"
  using run_pending [OF executor_promise(1) [OF assms(2)] assms(3), where command = command]
  by (simp add: sendCommand_known [OF assms(1)])

section \<open>The first line of the response\<close>

lemma js_split_hd: "js_split sep s = takeWhile (\<lambda>c. c \<noteq> sep) s # tl (js_split sep s)"
  by (induction s) (auto split: list.splits)

lemma first_line_takeWhile:
  "first_line buffer = takeWhile (\<lambda>c. c \<noteq> cu CHR ''\<newline>'') (js_trim buffer)"
  unfolding first_line_def by (subst js_split_hd) simp

lemma dropWhile_led: "xs \<noteq> [] \<Longrightarrow> \<not> Q (hd xs) \<Longrightarrow> dropWhile Q (xs @ ys) = xs @ ys"
  by (cases xs) simp_all

lemma js_trim_surrounded:
  assumes l: "list_all js_whitespace l" and r: "list_all js_whitespace r"
    and t: "t = [] \<or> \<not> js_whitespace (hd t) \<and> \<not> js_whitespace (last t)"
  shows "js_trim (l @ t @ r) = t"
proof (cases "t = []")
  case True
  from l r have "\<forall>c \<in> set (l @ [] @ r). js_whitespace c"
    by (auto simp: list_all_iff)
  then have d: "dropWhile js_whitespace (l @ [] @ r) = []"
    by (simp only: dropWhile_eq_Nil_conv)
  show ?thesis
    unfolding js_trim_def True d by simp
next
  case False
  with t have h: "\<not> js_whitespace (hd t)" and e: "\<not> js_whitespace (last t)"
    by simp_all
  from l have "dropWhile js_whitespace (l @ t @ r) = dropWhile js_whitespace (t @ r)"
    by (intro dropWhile_append2) (simp add: list_all_iff)
  also have "\<dots> = t @ r"
    using False h by (rule dropWhile_led)
  finally have front: "dropWhile js_whitespace (l @ t @ r) = t @ r" .
  from r have "dropWhile js_whitespace (rev r @ rev t) = dropWhile js_whitespace (rev t)"
    by (intro dropWhile_append2) (simp add: list_all_iff)
  also from False e have "\<dots> = rev t"
    using dropWhile_led [of "rev t" js_whitespace "[]"] by (simp add: hd_rev)
  finally show ?thesis
    unfolding js_trim_def front by simp
qed

lemma first_line_surrounded:
  assumes "list_all js_whitespace l" and "list_all js_whitespace r"
    and "t = [] \<or> \<not> js_whitespace (hd t) \<and> \<not> js_whitespace (last t)"
  shows "first_line (l @ t @ r) = takeWhile (\<lambda>c. c \<noteq> cu CHR ''\<newline>'') t"
  unfolding first_line_takeWhile js_trim_surrounded [OF assms] ..


lemma end_result_first_line:
  "first_line buffer = first_line buffer' \<Longrightarrow> end_result P srv buffer = end_result P srv buffer'"
  by (simp add: end_result_def)

lemma example_first_line: "first_line example_output = example_line"
  by (simp add: first_line_def example_output_def example_line_def js_trim_def js_whitespace_def)

lemma example_padded_first_line: "first_line example_padded = example_line"
  by (simp add: first_line_def example_padded_def example_output_def example_line_def
        js_trim_def js_whitespace_def)




lemma end_result_auth_required:
  assumes "JSON_parse P (first_line buffer) = Inr result"
    and "auth_error result ''AUTH_REQUIRED''"
  shows "end_result P srv buffer =
      error_envelope
        (js ''Authentication required for '' @ [0x27] @ template_text P (name srv) @ [0x27]
           @ js ''. Add apiKey to your config.'')"
  using assms
  by (cases result)
     (simp_all add: end_result_def has_error_code_def read_property_def auth_error_def
        field_of_def)

lemma end_result_auth_failed:
  assumes "JSON_parse P (first_line buffer) = Inr result"
    and "auth_error result ''AUTH_FAILED''"
  shows "end_result P srv buffer =
      error_envelope
        (js ''Invalid API key for '' @ [0x27] @ template_text P (name srv) @ [0x27]
           @ js ''. Check your configuration.'')"
  using assms
  by (cases result)
     (simp_all add: end_result_def has_error_code_def read_property_def auth_error_def
        field_of_def)

lemma end_result_passes:
  assumes "JSON_parse P (first_line buffer) = Inr result"
    and "result \<noteq> JNull" and "result \<noteq> JUndefined"
    and "\<not> auth_error result ''AUTH_REQUIRED''" and "\<not> auth_error result ''AUTH_FAILED''"
  shows "end_result P srv buffer = result"
  using assms
  by (cases result)
     (auto simp: end_result_def has_error_code_def read_property_def auth_error_def
        field_of_def split: option.splits)

section \<open>Resolving the server\<close>

lemma example_getServer:
  "getServer example_config None =
     Inr \<lparr>host = JStr (js ''dev.local''), port = JNum (JFinite 9998), apiKey = JUndefined,
          name = JStr (js ''dev'')\<rparr>"
  by (simp add: getServer_def serverName_def optional_def example_config_def js_or_def
        string_or_undefined_def servers_property_def)

lemma example_keyed_getServer:
  "getServer (example_keyed_config key) None = Inr (example_keyed\<lparr>apiKey := key\<rparr>)"
  by (simp add: getServer_def serverName_def example_keyed_config_def example_keyed_def
        js_or_def string_or_undefined_def servers_property_def)


lemma example_constructor:
  "getServer example_config (Some (js ''constructor''))
     = Inr \<lparr>host = JUndefined, port = JUndefined, apiKey = JUndefined,
            name = JStr (js ''constructor'')\<rparr>"
  by (simp add: getServer_def serverName_def optional_def example_config_def js_or_def
        string_or_undefined_def servers_property_def Object_prototype_names_def)

lemma example_connect_accepts:
  "socket_connect example_platform (JNum (JFinite 9998)) h = None"
  "socket_connect example_platform (JNum (JFinite 9999)) h = None"
  by (simp_all add: example_platform_def example_connect_def)

lemma example_connect_refuses:
  "socket_connect example_platform JUndefined h = Some (node_error ''ERR_MISSING_ARGS'')"
  "socket_connect example_platform (JNum (JFinite 70000)) h
     = Some (node_error ''ERR_SOCKET_BAD_PORT'')"
  by (simp_all add: example_platform_def example_connect_def)

section \<open>The line written on connect\<close>

lemma written_resolve: "written (resolve v st) = written st"
  by (simp add: resolve_def split: promise.splits)

lemma written_run:
  "written (foldl (socket_on P srv command) st evs) =
     written st @ map (\<lambda>e. command_line P srv command) (filter (\<lambda>e. e = OnConnect) evs)"
proof (induction evs arbitrary: st)
  case Nil
  then show ?case by simp
next
  case (Cons e evs)
  then show ?case by (cases e) (simp_all add: written_resolve)
qed

lemma written_sendCommand:
  "getServer cfg nm = Inr srv \<Longrightarrow>
     written (sendCommand P cfg command nm evs) =
       map (\<lambda>e. command_line P srv command) (filter (\<lambda>e. e = OnConnect) evs)"
  by (simp add: sendCommand_known written_run executor_simps)

text \<open>
  Claim C5. Every line written to the socket is written by the \<^verbatim>\<open>connect\<close> handler, one
  per connect event, and it is \<open>command_line\<close>. If the resolved server has an API key (its
  \<open>apiKey\<close> is a non-empty string, which is what the code tests for), the line is
  \<^verbatim>\<open>AUTH:\<close>, the key, a space, the command and a newline; if it has none (the field is
  absent), the line is the command and a newline, so it starts with the command verb. The
  empty key and the other values that count as false are the subject of claim C10.
\<close>

theorem auth_prefix_on_connect:
  "(getServer cfg nm = Inr srv \<longrightarrow>
      written (sendCommand P cfg command nm evs) =
        map (\<lambda>e. command_line P srv command) (filter (\<lambda>e. e = OnConnect) evs))
   \<and> (apiKey srv = JStr key \<and> key \<noteq> [] \<longrightarrow>
        command_line P srv command = js ''AUTH:'' @ key @ js '' '' @ command @ js ''\<newline>'')
   \<and> (apiKey srv = JUndefined \<longrightarrow> command_line P srv command = command @ js ''\<newline>'')"
  by (simp add: written_sendCommand command_line_def template_text_def)

text \<open>
  Claim C5 on the test configuration (no key) and on a server with the key
  \<^verbatim>\<open>vw_abc123\<close>.
\<close>

theorem auth_prefix_on_connect_witness:
  "written (sendCommand example_platform example_config (js ''PING'') None [OnConnect])
     = [js ''PING'' @ js ''\<newline>'']
   \<and> command_line example_platform example_keyed (js ''PING'')
     = js ''AUTH:vw_abc123 PING'' @ js ''\<newline>''"
proof -
  let ?dev = "\<lparr>host = JStr (js ''dev.local''), port = JNum (JFinite 9998), apiKey = JUndefined,
          name = JStr (js ''dev'')\<rparr>"
  have key: "apiKey example_keyed = JStr (js ''vw_abc123'') \<and> js ''vw_abc123'' \<noteq> []"
    by (simp add: example_keyed_def)
  have none: "apiKey ?dev = JUndefined"
    by simp
  from auth_prefix_on_connect [where cfg = example_config and nm = None and srv = ?dev
      and P = example_platform and command = "js ''PING''" and evs = "[OnConnect]"]
    example_getServer none
  have "written (sendCommand example_platform example_config (js ''PING'') None [OnConnect])
     = [js ''PING'' @ js ''\<newline>'']"
    by simp
  moreover from auth_prefix_on_connect [where srv = example_keyed and key = "js ''vw_abc123''"
      and P = example_platform and command = "js ''PING''"] key
  have "command_line example_platform example_keyed (js ''PING'')
     = js ''AUTH:vw_abc123 PING'' @ js ''\<newline>''"
    by simp
  ultimately show ?thesis by blast
qed

lemma command_line_falsy:
  "\<not> truthy (apiKey srv) \<Longrightarrow> command_line P srv command = command @ js ''\<newline>''"
  by (simp add: command_line_def)

lemma command_line_truthy:
  "truthy (apiKey srv) \<Longrightarrow>
     command_line P srv command =
       js ''AUTH:'' @ template_text P (apiKey srv) @ js '' '' @ command @ js ''\<newline>''"
  by (simp add: command_line_def)

lemma falsy_values:
  "v \<in> {JStr [], JNull, JUndefined, JBool False, JNum (JFinite 0), JNum JNaN} \<Longrightarrow> \<not> truthy v"
  by auto

text \<open>
  Claim C10. If the \<open>apiKey\<close> of the resolved server is the empty string or any other
  value that counts as false (\<^verbatim>\<open>null\<close>, \<^verbatim>\<open>undefined\<close>, \<^verbatim>\<open>false\<close>, zero, NaN),
  every line \<open>sendCommand\<close> writes to the socket, one per connect event, is the command and
  a newline with no \<^verbatim>\<open>AUTH:\<close> prefix, and the lines written are those of a call that
  resolves to the same server with no \<open>apiKey\<close> at all; if the \<open>apiKey\<close> counts as true,
  every line written is \<^verbatim>\<open>AUTH:\<close>, the key, a space, the command and a newline, so that
  a key that counts as true, and only such a key, puts the prefix in front.
\<close>

theorem falsy_key_sends_no_prefix:
  "(getServer cfg nm = Inr srv \<and> \<not> truthy (apiKey srv) \<longrightarrow>
      written (sendCommand P cfg command nm evs) =
        map (\<lambda>e. command @ js ''\<newline>'') (filter (\<lambda>e. e = OnConnect) evs))
   \<and> (getServer cfg nm = Inr srv \<and> \<not> truthy (apiKey srv) \<and>
      getServer cfg' nm' = Inr (srv\<lparr>apiKey := JUndefined\<rparr>) \<longrightarrow>
        written (sendCommand P cfg command nm evs) = written (sendCommand P cfg' command nm' evs))
   \<and> (getServer cfg nm = Inr srv \<and> truthy (apiKey srv) \<longrightarrow>
        written (sendCommand P cfg command nm evs) =
          map (\<lambda>e. js ''AUTH:'' @ template_text P (apiKey srv) @ js '' '' @ command
                    @ js ''\<newline>'')
            (filter (\<lambda>e. e = OnConnect) evs))
   \<and> (\<not> truthy (apiKey srv) \<longrightarrow>
        command_line P srv command = command @ js ''\<newline>'' \<and>
        command_line P srv command = command_line P (srv\<lparr>apiKey := JUndefined\<rparr>) command)
   \<and> (apiKey srv \<in> {JStr [], JNull, JUndefined, JBool False, JNum (JFinite 0), JNum JNaN}
        \<longrightarrow> \<not> truthy (apiKey srv))
   \<and> (truthy (apiKey srv) \<longrightarrow>
        command_line P srv command =
          js ''AUTH:'' @ template_text P (apiKey srv) @ js '' '' @ command @ js ''\<newline>'')"
proof (intro conjI impI; (elim conjE)?)
  assume srv: "getServer cfg nm = Inr srv" and f: "\<not> truthy (apiKey srv)"
  show "written (sendCommand P cfg command nm evs) =
        map (\<lambda>e. command @ js ''\<newline>'') (filter (\<lambda>e. e = OnConnect) evs)"
    by (simp only: written_sendCommand [OF srv] command_line_falsy [OF f])
next
  assume srv: "getServer cfg nm = Inr srv" and f: "\<not> truthy (apiKey srv)"
    and srv': "getServer cfg' nm' = Inr (srv\<lparr>apiKey := JUndefined\<rparr>)"
  have "command_line P (srv\<lparr>apiKey := JUndefined\<rparr>) command = command @ js ''\<newline>''"
    by (rule command_line_falsy) simp
  then show "written (sendCommand P cfg command nm evs)
      = written (sendCommand P cfg' command nm' evs)"
    by (simp only: written_sendCommand [OF srv] written_sendCommand [OF srv']
          command_line_falsy [OF f])
next
  assume srv: "getServer cfg nm = Inr srv" and t: "truthy (apiKey srv)"
  show "written (sendCommand P cfg command nm evs) =
          map (\<lambda>e. js ''AUTH:'' @ template_text P (apiKey srv) @ js '' '' @ command
                    @ js ''\<newline>'')
            (filter (\<lambda>e. e = OnConnect) evs)"
    by (simp only: written_sendCommand [OF srv] command_line_truthy [OF t])
next
  assume f: "\<not> truthy (apiKey srv)"
  show "command_line P srv command = command @ js ''\<newline>''"
    by (rule command_line_falsy [OF f])
next
  assume f: "\<not> truthy (apiKey srv)"
  have "command_line P (srv\<lparr>apiKey := JUndefined\<rparr>) command = command @ js ''\<newline>''"
    by (rule command_line_falsy) simp
  with command_line_falsy [OF f, where P = P and command = command]
  show "command_line P srv command = command_line P (srv\<lparr>apiKey := JUndefined\<rparr>) command"
    by simp
next
  assume "apiKey srv \<in> {JStr [], JNull, JUndefined, JBool False, JNum (JFinite 0), JNum JNaN}"
  then show "\<not> truthy (apiKey srv)"
    by (rule falsy_values)
next
  assume t: "truthy (apiKey srv)"
  show "command_line P srv command =
          js ''AUTH:'' @ template_text P (apiKey srv) @ js '' '' @ command @ js ''\<newline>''"
    by (rule command_line_truthy [OF t])
qed

text \<open>
  Claim C10 on the configuration whose server \<^verbatim>\<open>prod\<close> has the empty key, \<^verbatim>\<open>null\<close>,
  no key and the key \<^verbatim>\<open>vw_abc123\<close>: what a call writes when the socket connects.
\<close>

theorem falsy_key_sends_no_prefix_witness:
  "written (sendCommand example_platform (example_keyed_config (JStr [])) (js ''PING'') None
      [OnConnect, OnData example_line, OnEnd]) = [js ''PING'' @ js ''\<newline>'']
   \<and> written (sendCommand example_platform (example_keyed_config JNull) (js ''PING'') None
        [OnConnect, OnData example_line, OnEnd])
     = written (sendCommand example_platform (example_keyed_config JUndefined) (js ''PING'') None
        [OnConnect, OnData example_line, OnEnd])
   \<and> written (sendCommand example_platform (example_keyed_config (JStr (js ''vw_abc123'')))
        (js ''PING'') None [OnConnect, OnData example_line, OnEnd])
     = [js ''AUTH:'' @ js ''vw_abc123'' @ js '' '' @ js ''PING'' @ js ''\<newline>'']
   \<and> \<not> truthy (JStr [])
   \<and> command_line example_platform (example_keyed\<lparr>apiKey := JStr []\<rparr>) (js ''PING'')
       = js ''PING'' @ js ''\<newline>''
   \<and> command_line example_platform (example_keyed\<lparr>apiKey := JNull\<rparr>) (js ''PING'')
       = command_line example_platform (example_keyed\<lparr>apiKey := JUndefined\<rparr>) (js ''PING'')
   \<and> command_line example_platform example_keyed (js ''PING'')
       = js ''AUTH:'' @ js ''vw_abc123'' @ js '' '' @ js ''PING'' @ js ''\<newline>''"
proof -
  let ?evs = "[OnConnect, OnData example_line, OnEnd]"
  have f: "\<not> truthy (apiKey (example_keyed\<lparr>apiKey := JStr []\<rparr>))"
      "\<not> truthy (apiKey (example_keyed\<lparr>apiKey := JNull\<rparr>))"
    by simp_all
  have t: "truthy (apiKey (example_keyed\<lparr>apiKey := JStr (js ''vw_abc123'')\<rparr>))"
      "template_text example_platform (apiKey (example_keyed\<lparr>apiKey := JStr (js ''vw_abc123'')\<rparr>))
         = js ''vw_abc123''"
    by (simp_all add: template_text_def)
  have u: "getServer (example_keyed_config JUndefined) None
      = Inr (example_keyed\<lparr>apiKey := JNull\<rparr>\<lparr>apiKey := JUndefined\<rparr>)"
    by (simp add: example_keyed_getServer)
  from falsy_key_sends_no_prefix [where cfg = "example_keyed_config (JStr [])" and nm = None
      and srv = "example_keyed\<lparr>apiKey := JStr []\<rparr>" and P = example_platform
      and command = "js ''PING''" and evs = ?evs]
    example_keyed_getServer [of "JStr []"] f(1)
  have a: "written (sendCommand example_platform (example_keyed_config (JStr [])) (js ''PING'')
        None ?evs) = [js ''PING'' @ js ''\<newline>'']"
    and d: "command_line example_platform (example_keyed\<lparr>apiKey := JStr []\<rparr>) (js ''PING'')
       = js ''PING'' @ js ''\<newline>''"
    by simp_all
  from falsy_key_sends_no_prefix [where cfg = "example_keyed_config JNull" and nm = None
      and srv = "example_keyed\<lparr>apiKey := JNull\<rparr>" and P = example_platform
      and command = "js ''PING''" and evs = ?evs
      and cfg' = "example_keyed_config JUndefined" and nm' = None]
    example_keyed_getServer [of JNull] f(2) u
  have b: "written (sendCommand example_platform (example_keyed_config JNull) (js ''PING'') None
        ?evs)
     = written (sendCommand example_platform (example_keyed_config JUndefined) (js ''PING'') None
        ?evs)"
    by blast
  from falsy_key_sends_no_prefix [where cfg = "example_keyed_config (JStr (js ''vw_abc123''))"
      and nm = None and srv = "example_keyed\<lparr>apiKey := JStr (js ''vw_abc123'')\<rparr>"
      and P = example_platform and command = "js ''PING''" and evs = ?evs]
    example_keyed_getServer [of "JStr (js ''vw_abc123'')"] t
  have c: "written (sendCommand example_platform (example_keyed_config (JStr (js ''vw_abc123'')))
        (js ''PING'') None ?evs)
     = [js ''AUTH:'' @ js ''vw_abc123'' @ js '' '' @ js ''PING'' @ js ''\<newline>'']"
    by simp
  from falsy_key_sends_no_prefix [where srv = "example_keyed\<lparr>apiKey := JNull\<rparr>"
      and P = example_platform and command = "js ''PING''"] f(2)
  have "command_line example_platform (example_keyed\<lparr>apiKey := JNull\<rparr>) (js ''PING'')
       = command_line example_platform (example_keyed\<lparr>apiKey := JNull, apiKey := JUndefined\<rparr>)
           (js ''PING'')"
    by blast
  then have e: "command_line example_platform (example_keyed\<lparr>apiKey := JNull\<rparr>) (js ''PING'')
       = command_line example_platform (example_keyed\<lparr>apiKey := JUndefined\<rparr>) (js ''PING'')"
    by simp
  have k: "truthy (apiKey example_keyed)"
      "template_text example_platform (apiKey example_keyed) = js ''vw_abc123''"
    by (simp_all add: example_keyed_def template_text_def)
  from falsy_key_sends_no_prefix [where srv = example_keyed and P = example_platform
      and command = "js ''PING''"] k
  have g: "command_line example_platform example_keyed (js ''PING'')
       = js ''AUTH:'' @ js ''vw_abc123'' @ js '' '' @ js ''PING'' @ js ''\<newline>''"
    by simp
  from a b c d e g show ?thesis by simp
qed

section \<open>The response: first line, authentication codes\<close>

text \<open>
  Claim C4. The first line of a buffer that consists of white space, a text that neither
  begins nor ends with white space, and white space again is that text up to its first
  newline: the surrounding white space is trimmed and everything after the first line is
  discarded. When the connection closes cleanly after any number of data chunks (and
  \<^verbatim>\<open>connect\<close> has accepted the port and host), \<open>sendCommand\<close> resolves with what
  \<^verbatim>\<open>JSON.parse\<close> returns for the first line of the concatenated chunks, for every
  returned value other than \<^verbatim>\<open>null\<close> and the two authentication errors of claim C6; two
  responses with the same first line resolve alike. In particular the output
  \<^verbatim>\<open>{"status":"ok","data":"first"}\<close>, a newline and \<^verbatim>\<open>{"garbage"}\<close>, with or without
  white space around it, has the first line \<^verbatim>\<open>{"status":"ok","data":"first"}\<close>, and
  (\<^verbatim>\<open>JSON.parse\<close> reading that line as the object it denotes) the call resolves to
  \<^verbatim>\<open>{status: "ok", data: "first"}\<close>.
\<close>

theorem first_line_only:
  "(list_all js_whitespace l \<and> list_all js_whitespace r \<and>
    (t = [] \<or> \<not> js_whitespace (hd t) \<and> \<not> js_whitespace (last t)) \<longrightarrow>
      first_line (l @ t @ r) = takeWhile (\<lambda>c. c \<noteq> cu CHR ''\<newline>'') t)
   \<and> (getServer cfg nm = Inr srv \<and> socket_connect P (port srv) (host srv) = None \<and>
      JSON_parse P (first_line (concat chunks)) = Inr result \<and>
      result \<noteq> JNull \<and> result \<noteq> JUndefined \<and>
      \<not> auth_error result ''AUTH_REQUIRED'' \<and> \<not> auth_error result ''AUTH_FAILED'' \<longrightarrow>
        promise (sendCommand P cfg command nm (OnConnect # map OnData chunks @ [OnEnd]))
          = Resolved result)
   \<and> (getServer cfg nm = Inr srv \<and> socket_connect P (port srv) (host srv) = None \<and>
      first_line (concat chunks) = first_line (concat chunks') \<longrightarrow>
        promise (sendCommand P cfg command nm (OnConnect # map OnData chunks @ [OnEnd]))
          = promise (sendCommand P cfg command nm (OnConnect # map OnData chunks' @ [OnEnd])))
   \<and> first_line example_output = example_line
   \<and> first_line example_padded = example_line
   \<and> (getServer cfg nm = Inr srv \<and> socket_connect P (port srv) (host srv) = None \<and>
        JSON_parse P example_line =
          Inr (JObj [(js ''status'', JStr (js ''ok'')), (js ''data'', JStr (js ''first''))]) \<longrightarrow>
        promise (sendCommand P cfg command nm [OnConnect, OnData example_output, OnEnd])
          = Resolved (JObj [(js ''status'', JStr (js ''ok'')), (js ''data'', JStr (js ''first''))]))"
proof (intro conjI impI; (elim conjE)?)
  assume "list_all js_whitespace l" "list_all js_whitespace r"
    "t = [] \<or> \<not> js_whitespace (hd t) \<and> \<not> js_whitespace (last t)"
  then show "first_line (l @ t @ r) = takeWhile (\<lambda>c. c \<noteq> cu CHR ''\<newline>'') t"
    by (rule first_line_surrounded)
next
  assume srv: "getServer cfg nm = Inr srv" "socket_connect P (port srv) (host srv) = None"
    and result: "JSON_parse P (first_line (concat chunks)) = Inr result"
      "result \<noteq> JNull" "result \<noteq> JUndefined"
      "\<not> auth_error result ''AUTH_REQUIRED''" "\<not> auth_error result ''AUTH_FAILED''"
  show "promise (sendCommand P cfg command nm (OnConnect # map OnData chunks @ [OnEnd]))
          = Resolved result"
    by (simp only: sendCommand_clean_close [OF srv] end_result_passes [OF result])
next
  assume srv: "getServer cfg nm = Inr srv" "socket_connect P (port srv) (host srv) = None"
    and same: "first_line (concat chunks) = first_line (concat chunks')"
  show "promise (sendCommand P cfg command nm (OnConnect # map OnData chunks @ [OnEnd]))
          = promise (sendCommand P cfg command nm (OnConnect # map OnData chunks' @ [OnEnd]))"
    by (simp only: sendCommand_clean_close [OF srv] end_result_first_line [OF same])
next
  show "first_line example_output = example_line"
    by (rule example_first_line)
next
  show "first_line example_padded = example_line"
    by (rule example_padded_first_line)
next
  let ?obj = "JObj [(js ''status'', JStr (js ''ok'')), (js ''data'', JStr (js ''first''))]"
  assume srv: "getServer cfg nm = Inr srv" "socket_connect P (port srv) (host srv) = None"
    and parse: "JSON_parse P example_line = Inr ?obj"
  have "end_result P srv example_output = ?obj"
    by (rule end_result_passes)
       (simp_all add: example_first_line parse auth_error_def field_of_def)
  with sendCommand_clean_close [OF srv, where command = command and chunks = "[example_output]"]
  show "promise (sendCommand P cfg command nm [OnConnect, OnData example_output, OnEnd])
          = Resolved ?obj"
    by simp
qed

text \<open>
  Claim C4 on the test configuration: the first line of a padded text, and the example
  output received in one piece, or in three with white space around it, or without its
  second line.
\<close>

theorem first_line_only_witness:
  "first_line (js ''  '' @ js ''first\<newline>second'' @ js '' \<newline>'') = js ''first''
   \<and> promise (sendCommand example_platform example_config (js ''PING'') None
      [OnConnect, OnData example_output, OnEnd])
     = promise (sendCommand example_platform example_config (js ''PING'') None
      [OnConnect, OnData example_line, OnEnd])
   \<and> promise (sendCommand example_platform example_config (js ''PING'') None
      [OnConnect, OnData example_output, OnEnd])
     = Resolved (JObj [(js ''status'', JStr (js ''ok'')), (js ''data'', JStr (js ''first''))])
   \<and> promise (sendCommand example_platform example_config (js ''PING'') None
      [OnConnect, OnData (js '' \<newline>''), OnData example_output, OnData (js ''\<newline>''),
       OnEnd])
     = Resolved (JObj [(js ''status'', JStr (js ''ok'')), (js ''data'', JStr (js ''first''))])"
proof -
  let ?dev = "\<lparr>host = JStr (js ''dev.local''), port = JNum (JFinite 9998), apiKey = JUndefined,
          name = JStr (js ''dev'')\<rparr>"
  let ?obj = "JObj [(js ''status'', JStr (js ''ok'')), (js ''data'', JStr (js ''first''))]"
  have ok: "socket_connect example_platform (port ?dev) (host ?dev) = None"
    by (simp add: example_connect_accepts)
  have parse: "JSON_parse example_platform example_line = Inr ?obj"
    by (simp add: example_platform_def example_parse_def)
  have white: "list_all js_whitespace (js ''  '')" "list_all js_whitespace (js '' \<newline>'')"
      "js ''first\<newline>second'' = [] \<or>
       \<not> js_whitespace (hd (js ''first\<newline>second'')) \<and>
       \<not> js_whitespace (last (js ''first\<newline>second''))"
    by (simp_all add: js_whitespace_def)
  from first_line_only [where l = "js ''  ''" and t = "js ''first\<newline>second''"
      and r = "js '' \<newline>''"] white
  have a: "first_line (js ''  '' @ js ''first\<newline>second'' @ js '' \<newline>'') = js ''first''"
    by simp
  from first_line_only [where cfg = example_config and nm = None and srv = ?dev
      and P = example_platform and command = "js ''PING''"]
    example_getServer ok parse
  have b: "promise (sendCommand example_platform example_config (js ''PING'') None
      [OnConnect, OnData example_output, OnEnd]) = Resolved ?obj"
    by blast
  have padded: "concat [js '' \<newline>'', example_output, js ''\<newline>''] = example_padded"
    by (simp add: example_padded_def)
  have result: "JSON_parse example_platform
        (first_line (concat [js '' \<newline>'', example_output, js ''\<newline>''])) = Inr ?obj"
      "?obj \<noteq> JNull" "?obj \<noteq> JUndefined"
      "\<not> auth_error ?obj ''AUTH_REQUIRED''" "\<not> auth_error ?obj ''AUTH_FAILED''"
    unfolding padded example_padded_first_line
    by (simp_all add: parse auth_error_def field_of_def)
  from first_line_only [where cfg = example_config and nm = None and srv = ?dev
      and P = example_platform and command = "js ''PING''"
      and chunks = "[js '' \<newline>'', example_output, js ''\<newline>'']" and result = ?obj]
    example_getServer ok result
  have "promise (sendCommand example_platform example_config (js ''PING'') None
      (OnConnect # map OnData [js '' \<newline>'', example_output, js ''\<newline>''] @ [OnEnd]))
        = Resolved ?obj"
    by blast
  then have c: "promise (sendCommand example_platform example_config (js ''PING'') None
      [OnConnect, OnData (js '' \<newline>''), OnData example_output, OnData (js ''\<newline>''),
       OnEnd]) = Resolved ?obj"
    by simp
  have same: "first_line (concat [example_output]) = first_line (concat [example_line])"
    by (simp add: first_line_def example_output_def example_line_def js_trim_def
          js_whitespace_def)
  from first_line_only [where cfg = example_config and nm = None and srv = ?dev
      and P = example_platform and command = "js ''PING''"
      and chunks = "[example_output]" and chunks' = "[example_line]"]
    example_getServer ok same
  have "promise (sendCommand example_platform example_config (js ''PING'') None
      (OnConnect # map OnData [example_output] @ [OnEnd]))
     = promise (sendCommand example_platform example_config (js ''PING'') None
      (OnConnect # map OnData [example_line] @ [OnEnd]))"
    by blast
  then have d: "promise (sendCommand example_platform example_config (js ''PING'') None
      [OnConnect, OnData example_output, OnEnd])
     = promise (sendCommand example_platform example_config (js ''PING'') None
      [OnConnect, OnData example_line, OnEnd])"
    by simp
  from a b c d show ?thesis by blast
qed

lemma sublist_middle: "sublist xs (ps @ xs @ ss)"
  by (auto simp: sublist_def)

lemma sublist_front: "sublist xs (xs @ ss)"
  using sublist_middle [of xs "[]" ss] by simp

lemma auth_required_message:
  "sublist (js ''Authentication required'')
     (js ''Authentication required for '' @ [0x27] @ nm @ [0x27] @ js ''. Add apiKey to your config.'')"
  "sublist (js ''Add apiKey'')
     (js ''Authentication required for '' @ [0x27] @ nm @ [0x27] @ js ''. Add apiKey to your config.'')"
  "sublist nm
     (js ''Authentication required for '' @ [0x27] @ nm @ [0x27] @ js ''. Add apiKey to your config.'')"
proof -
  show "sublist (js ''Authentication required'')
     (js ''Authentication required for '' @ [0x27] @ nm @ [0x27] @ js ''. Add apiKey to your config.'')"
    using sublist_front [of "js ''Authentication required''"
        "js '' for '' @ [0x27] @ nm @ [0x27] @ js ''. Add apiKey to your config.''"]
    by simp
  show "sublist (js ''Add apiKey'')
     (js ''Authentication required for '' @ [0x27] @ nm @ [0x27] @ js ''. Add apiKey to your config.'')"
    using sublist_middle [of "js ''Add apiKey''"
        "js ''Authentication required for '' @ [0x27] @ nm @ [0x27] @ js ''. ''"
        "js '' to your config.''"]
    by simp
  show "sublist nm
     (js ''Authentication required for '' @ [0x27] @ nm @ [0x27] @ js ''. Add apiKey to your config.'')"
    using sublist_middle [of nm "js ''Authentication required for '' @ [0x27]"
        "[0x27] @ js ''. Add apiKey to your config.''"]
    by simp
qed

lemma auth_failed_message:
  "sublist (js ''Invalid API key'')
     (js ''Invalid API key for '' @ [0x27] @ nm @ [0x27] @ js ''. Check your configuration.'')"
  "sublist nm
     (js ''Invalid API key for '' @ [0x27] @ nm @ [0x27] @ js ''. Check your configuration.'')"
proof -
  show "sublist (js ''Invalid API key'')
     (js ''Invalid API key for '' @ [0x27] @ nm @ [0x27] @ js ''. Check your configuration.'')"
    using sublist_front [of "js ''Invalid API key''"
        "js '' for '' @ [0x27] @ nm @ [0x27] @ js ''. Check your configuration.''"]
    by simp
  show "sublist nm
     (js ''Invalid API key for '' @ [0x27] @ nm @ [0x27] @ js ''. Check your configuration.'')"
    using sublist_middle [of nm "js ''Invalid API key for '' @ [0x27]"
        "[0x27] @ js ''. Check your configuration.''"]
    by simp
qed

lemma getServer_name:
  assumes "getServer cfg nm = Inr srv"
  shows "name srv =
     (case map_of (servers cfg) (string_or_undefined (serverName cfg nm)) of
        Some entry \<Rightarrow>
          if name entry = JUndefined then optional (serverName cfg nm) else name entry
      | None \<Rightarrow> optional (serverName cfg nm))"
  using assms
  by (auto simp: getServer_def servers_property_def Let_def split: option.splits if_splits)

text \<open>
  Claim C6. Let the connection close cleanly (\<^verbatim>\<open>connect\<close> having accepted the port and
  host) and \<^verbatim>\<open>JSON.parse\<close> return a value for the first line received. If that value is
  an object whose status is \<^verbatim>\<open>error\<close> and whose code is \<^verbatim>\<open>AUTH_REQUIRED\<close>,
  \<open>sendCommand\<close> resolves to an object whose status is \<^verbatim>\<open>error\<close> and whose message is a
  string that contains \<^verbatim>\<open>Authentication required\<close>, \<^verbatim>\<open>Add apiKey\<close> and the text of the
  name of the resolved server; if the code is \<^verbatim>\<open>AUTH_FAILED\<close>, the message contains
  \<^verbatim>\<open>Invalid API key\<close> and the text of that name; an object with any other status or code
  is what the call resolves to, unchanged. The name of the resolved server is the
  \<^verbatim>\<open>name\<close> property of its entry in the configuration if the entry has one, and
  otherwise the name it was looked up by.
\<close>

theorem auth_codes_rewritten:
  "(getServer cfg nm = Inr srv \<and> socket_connect P (port srv) (host srv) = None \<and>
    JSON_parse P (first_line (concat chunks)) = Inr result \<longrightarrow>
      (auth_error result ''AUTH_REQUIRED'' \<longrightarrow>
         (\<exists>v msg.
            promise (sendCommand P cfg command nm (OnConnect # map OnData chunks @ [OnEnd]))
              = Resolved v \<and>
            error_with_message v msg \<and>
            sublist (js ''Authentication required'') msg \<and> sublist (js ''Add apiKey'') msg \<and>
            sublist (template_text P (name srv)) msg))
    \<and> (auth_error result ''AUTH_FAILED'' \<longrightarrow>
         (\<exists>v msg.
            promise (sendCommand P cfg command nm (OnConnect # map OnData chunks @ [OnEnd]))
              = Resolved v \<and>
            error_with_message v msg \<and>
            sublist (js ''Invalid API key'') msg \<and>
            sublist (template_text P (name srv)) msg))
    \<and> (result = JObj props \<and> \<not> auth_error result ''AUTH_REQUIRED'' \<and>
       \<not> auth_error result ''AUTH_FAILED'' \<longrightarrow>
         promise (sendCommand P cfg command nm (OnConnect # map OnData chunks @ [OnEnd]))
           = Resolved (JObj props)))
   \<and> (getServer cfg nm = Inr srv \<longrightarrow>
        name srv =
          (case map_of (servers cfg) (string_or_undefined (serverName cfg nm)) of
             Some entry \<Rightarrow>
               if name entry = JUndefined then optional (serverName cfg nm) else name entry
           | None \<Rightarrow> optional (serverName cfg nm)))
   \<and> (name srv = JStr shown \<longrightarrow> template_text P (name srv) = shown)"
proof (intro conjI impI; (elim conjE)?)
  let ?run = "sendCommand P cfg command nm (OnConnect # map OnData chunks @ [OnEnd])"
  assume srv: "getServer cfg nm = Inr srv" "socket_connect P (port srv) (host srv) = None"
    and parse: "JSON_parse P (first_line (concat chunks)) = Inr result"
    and code: "auth_error result ''AUTH_REQUIRED''"
  let ?msg = "js ''Authentication required for '' @ [0x27] @ template_text P (name srv) @ [0x27]
           @ js ''. Add apiKey to your config.''"
  have "promise ?run = Resolved (error_envelope ?msg)"
    by (simp only: sendCommand_clean_close [OF srv] end_result_auth_required [OF parse code])
  with error_envelope_message [of ?msg] auth_required_message [of "template_text P (name srv)"]
  show "\<exists>v msg. promise ?run = Resolved v \<and> error_with_message v msg \<and>
            sublist (js ''Authentication required'') msg \<and> sublist (js ''Add apiKey'') msg \<and>
            sublist (template_text P (name srv)) msg"
    by blast
next
  let ?run = "sendCommand P cfg command nm (OnConnect # map OnData chunks @ [OnEnd])"
  assume srv: "getServer cfg nm = Inr srv" "socket_connect P (port srv) (host srv) = None"
    and parse: "JSON_parse P (first_line (concat chunks)) = Inr result"
    and code: "auth_error result ''AUTH_FAILED''"
  let ?msg = "js ''Invalid API key for '' @ [0x27] @ template_text P (name srv) @ [0x27]
           @ js ''. Check your configuration.''"
  have "promise ?run = Resolved (error_envelope ?msg)"
    by (simp only: sendCommand_clean_close [OF srv] end_result_auth_failed [OF parse code])
  with error_envelope_message [of ?msg] auth_failed_message [of "template_text P (name srv)"]
  show "\<exists>v msg. promise ?run = Resolved v \<and> error_with_message v msg \<and>
            sublist (js ''Invalid API key'') msg \<and>
            sublist (template_text P (name srv)) msg"
    by blast
next
  assume srv: "getServer cfg nm = Inr srv" "socket_connect P (port srv) (host srv) = None"
    and parse: "JSON_parse P (first_line (concat chunks)) = Inr result"
    and other: "result = JObj props" "\<not> auth_error result ''AUTH_REQUIRED''"
      "\<not> auth_error result ''AUTH_FAILED''"
  from other(1) have "result \<noteq> JNull" "result \<noteq> JUndefined"
    by simp_all
  from end_result_passes [OF parse this other(2,3), where srv = srv] other(1)
  show "promise (sendCommand P cfg command nm (OnConnect # map OnData chunks @ [OnEnd]))
           = Resolved (JObj props)"
    by (simp only: sendCommand_clean_close [OF srv])
next
  assume "getServer cfg nm = Inr srv"
  then show "name srv =
          (case map_of (servers cfg) (string_or_undefined (serverName cfg nm)) of
             Some entry \<Rightarrow>
               if name entry = JUndefined then optional (serverName cfg nm) else name entry
           | None \<Rightarrow> optional (serverName cfg nm))"
    by (rule getServer_name)
next
  assume "name srv = JStr shown"
  then show "template_text P (name srv) = shown"
    by (simp add: template_text_def)
qed

text \<open>
  Claim C6 on the reply \<^verbatim>\<open>{"status":"error","code":"AUTH_REQUIRED"}\<close>: from the server
  \<^verbatim>\<open>dev\<close> of the test configuration, and from the server \<^verbatim>\<open>prod\<close> whose entry names
  itself \<^verbatim>\<open>production\<close>; on the reply \<^verbatim>\<open>{"status":"error","code":"AUTH_FAILED"}\<close>;
  and on the reply \<^verbatim>\<open>{"status":"ok","data":"first"}\<close>, which is resolved unchanged.
\<close>

theorem auth_codes_rewritten_witness:
  "(\<exists>v msg. promise (sendCommand example_platform example_config (js ''PING'') None
       [OnConnect, OnData example_auth_line, OnEnd]) = Resolved v
     \<and> error_with_message v msg
     \<and> sublist (js ''Authentication required'') msg \<and> sublist (js ''Add apiKey'') msg
     \<and> sublist (js ''dev'') msg)
   \<and> (\<exists>v msg. promise (sendCommand example_platform (example_keyed_config JUndefined)
         (js ''PING'') (Some (js ''prod'')) [OnConnect, OnData example_auth_line, OnEnd])
       = Resolved v
     \<and> error_with_message v msg
     \<and> sublist (js ''Authentication required'') msg \<and> sublist (js ''Add apiKey'') msg
     \<and> sublist (js ''production'') msg)
   \<and> (\<exists>v msg. promise (sendCommand example_platform example_config (js ''PING'') None
       [OnConnect, OnData example_failed_line, OnEnd]) = Resolved v
     \<and> error_with_message v msg
     \<and> sublist (js ''Invalid API key'') msg \<and> sublist (js ''dev'') msg)
   \<and> promise (sendCommand example_platform example_config (js ''PING'') None
       [OnConnect, OnData example_line, OnEnd])
     = Resolved (JObj [(js ''status'', JStr (js ''ok'')), (js ''data'', JStr (js ''first''))])"
proof -
  let ?dev = "\<lparr>host = JStr (js ''dev.local''), port = JNum (JFinite 9998), apiKey = JUndefined,
          name = JStr (js ''dev'')\<rparr>"
  let ?prod = "example_keyed\<lparr>apiKey := JUndefined\<rparr>"
  let ?reply = "JObj [(js ''status'', JStr (js ''error'')), (js ''code'', JStr (js ''AUTH_REQUIRED''))]"
  have line: "first_line (concat [example_auth_line]) = example_auth_line"
    by (simp add: first_line_def example_auth_line_def js_trim_def js_whitespace_def)
  have parse: "JSON_parse example_platform (first_line (concat [example_auth_line])) = Inr ?reply"
    unfolding line
    by (simp add: example_platform_def example_parse_def example_auth_line_def example_line_def example_failed_line_def)
  have code: "auth_error ?reply ''AUTH_REQUIRED''"
    by (simp add: auth_error_def field_of_def)
  have ok: "socket_connect example_platform (port ?dev) (host ?dev) = None"
      "socket_connect example_platform (port ?prod) (host ?prod) = None"
    by (simp_all add: example_connect_accepts example_keyed_def)
  have prod: "getServer (example_keyed_config JUndefined) (Some (js ''prod'')) = Inr ?prod"
    by (simp add: getServer_def serverName_def example_keyed_config_def example_keyed_def
          js_or_def string_or_undefined_def servers_property_def)
  have names: "template_text example_platform (name ?dev) = js ''dev''"
      "template_text example_platform (name ?prod) = js ''production''"
    by (simp_all add: template_text_def example_keyed_def)
  from auth_codes_rewritten [where cfg = example_config and nm = None and srv = ?dev
      and P = example_platform and command = "js ''PING''" and chunks = "[example_auth_line]"
      and result = ?reply]
    example_getServer ok(1) parse code
  have "\<exists>v msg. promise (sendCommand example_platform example_config (js ''PING'') None
       (OnConnect # map OnData [example_auth_line] @ [OnEnd])) = Resolved v
     \<and> error_with_message v msg
     \<and> sublist (js ''Authentication required'') msg \<and> sublist (js ''Add apiKey'') msg
     \<and> sublist (template_text example_platform (name ?dev)) msg"
    by blast
  then have a: "\<exists>v msg. promise (sendCommand example_platform example_config (js ''PING'') None
       [OnConnect, OnData example_auth_line, OnEnd]) = Resolved v
     \<and> error_with_message v msg
     \<and> sublist (js ''Authentication required'') msg \<and> sublist (js ''Add apiKey'') msg
     \<and> sublist (js ''dev'') msg"
    unfolding names by simp
  from auth_codes_rewritten [where cfg = "example_keyed_config JUndefined"
      and nm = "Some (js ''prod'')" and srv = ?prod
      and P = example_platform and command = "js ''PING''" and chunks = "[example_auth_line]"
      and result = ?reply]
    prod ok(2) parse code
  have "\<exists>v msg. promise (sendCommand example_platform (example_keyed_config JUndefined)
         (js ''PING'') (Some (js ''prod''))
         (OnConnect # map OnData [example_auth_line] @ [OnEnd])) = Resolved v
     \<and> error_with_message v msg
     \<and> sublist (js ''Authentication required'') msg \<and> sublist (js ''Add apiKey'') msg
     \<and> sublist (template_text example_platform (name ?prod)) msg"
    by blast
  then have b: "\<exists>v msg. promise (sendCommand example_platform (example_keyed_config JUndefined)
         (js ''PING'') (Some (js ''prod'')) [OnConnect, OnData example_auth_line, OnEnd])
       = Resolved v
     \<and> error_with_message v msg
     \<and> sublist (js ''Authentication required'') msg \<and> sublist (js ''Add apiKey'') msg
     \<and> sublist (js ''production'') msg"
    unfolding names by simp
  let ?failed = "JObj [(js ''status'', JStr (js ''error'')), (js ''code'', JStr (js ''AUTH_FAILED''))]"
  have failed: "JSON_parse example_platform (first_line (concat [example_failed_line]))
      = Inr ?failed"
      "auth_error ?failed ''AUTH_FAILED''"
    by (simp_all add: first_line_def js_trim_def js_whitespace_def example_platform_def
          example_parse_def example_failed_line_def example_auth_line_def example_line_def
          auth_error_def field_of_def)
  from auth_codes_rewritten [where cfg = example_config and nm = None and srv = ?dev
      and P = example_platform and command = "js ''PING''" and chunks = "[example_failed_line]"
      and result = ?failed]
    example_getServer ok(1) failed
  have "\<exists>v msg. promise (sendCommand example_platform example_config (js ''PING'') None
       (OnConnect # map OnData [example_failed_line] @ [OnEnd])) = Resolved v
     \<and> error_with_message v msg
     \<and> sublist (js ''Invalid API key'') msg
     \<and> sublist (template_text example_platform (name ?dev)) msg"
    by blast
  then have c: "\<exists>v msg. promise (sendCommand example_platform example_config (js ''PING'') None
       [OnConnect, OnData example_failed_line, OnEnd]) = Resolved v
     \<and> error_with_message v msg
     \<and> sublist (js ''Invalid API key'') msg \<and> sublist (js ''dev'') msg"
    unfolding names by simp
  let ?props = "[(js ''status'', JStr (js ''ok'')), (js ''data'', JStr (js ''first''))]"
  have passed: "JSON_parse example_platform (first_line (concat [example_line]))
      = Inr (JObj ?props)"
      "\<not> auth_error (JObj ?props) ''AUTH_REQUIRED''"
      "\<not> auth_error (JObj ?props) ''AUTH_FAILED''"
    by (simp_all add: first_line_def js_trim_def js_whitespace_def example_platform_def
          example_parse_def example_line_def auth_error_def field_of_def)
  from auth_codes_rewritten [where cfg = example_config and nm = None and srv = ?dev
      and P = example_platform and command = "js ''PING''" and chunks = "[example_line]"
      and result = "JObj ?props" and props = ?props]
    example_getServer ok(1) passed
  have "promise (sendCommand example_platform example_config (js ''PING'') None
       (OnConnect # map OnData [example_line] @ [OnEnd])) = Resolved (JObj ?props)"
    by blast
  then have d: "promise (sendCommand example_platform example_config (js ''PING'') None
       [OnConnect, OnData example_line, OnEnd]) = Resolved (JObj ?props)"
    by simp
  from a b c d show ?thesis by blast
qed

section \<open>Settling the promise\<close>




section \<open>Server names that are not configured\<close>

lemma inherited_name_not_refused:
  "sockets (sendCommand P example_config command (Some (js ''constructor'')) evs) = 1"
  "connects (sendCommand P example_config command (Some (js ''constructor'')) evs)
     = [(JUndefined, JUndefined)]"
  "promise (sendCommand P example_config command (Some (js ''constructor'')) [])
     = (case socket_connect P JUndefined JUndefined of
          None \<Rightarrow> Pending
        | Some thrown \<Rightarrow> Rejected thrown)"
proof -
  show "sockets (sendCommand P example_config command (Some (js ''constructor'')) evs) = 1"
    unfolding sendCommand_known [OF example_constructor]
    by (simp add: run_sockets executor_simps)
  show "connects (sendCommand P example_config command (Some (js ''constructor'')) evs)
     = [(JUndefined, JUndefined)]"
    unfolding sendCommand_known [OF example_constructor]
    by (simp add: run_sockets executor_simps)
  show "promise (sendCommand P example_config command (Some (js ''constructor'')) [])
     = (case socket_connect P JUndefined JUndefined of
          None \<Rightarrow> Pending
        | Some thrown \<Rightarrow> Rejected thrown)"
    unfolding sendCommand_known [OF example_constructor]
    by (simp add: executor_def initial_state_def Let_def split: option.splits)
qed

text \<open>
  Claim C3 at the server name \<^verbatim>\<open>constructor\<close>, which the test configuration does not
  configure: the lookup finds the property every object inherits and \<open>getServer\<close> raises
  no error, so a socket is created and \<^verbatim>\<open>connect(undefined, undefined)\<close> is called.
  That call throws \<^verbatim>\<open>ERR_MISSING_ARGS\<close> outside the \<^verbatim>\<open>try\<close> block, so the promise is
  rejected: the call does not resolve to the error that names the unknown server.
\<close>

theorem inherited_name_opens_socket:
  "js ''constructor'' \<notin> set (map fst (servers example_config))
   \<and> getServer example_config (Some (js ''constructor''))
       = Inr \<lparr>host = JUndefined, port = JUndefined, apiKey = JUndefined,
              name = JStr (js ''constructor'')\<rparr>
   \<and> sockets (sendCommand example_platform example_config (js ''PING'')
        (Some (js ''constructor'')) []) = 1
   \<and> connects (sendCommand example_platform example_config (js ''PING'')
        (Some (js ''constructor'')) []) = [(JUndefined, JUndefined)]
   \<and> promise (sendCommand example_platform example_config (js ''PING'')
        (Some (js ''constructor'')) []) = Rejected (node_error ''ERR_MISSING_ARGS'')"
proof (intro conjI)
  show "js ''constructor'' \<notin> set (map fst (servers example_config))"
    by (simp add: example_config_def)
  show "getServer example_config (Some (js ''constructor''))
       = Inr \<lparr>host = JUndefined, port = JUndefined, apiKey = JUndefined,
              name = JStr (js ''constructor'')\<rparr>"
    by (rule example_constructor)
  show "sockets (sendCommand example_platform example_config (js ''PING'')
        (Some (js ''constructor'')) []) = 1"
    by (rule inherited_name_not_refused)
  show "connects (sendCommand example_platform example_config (js ''PING'')
        (Some (js ''constructor'')) []) = [(JUndefined, JUndefined)]"
    by (rule inherited_name_not_refused)
  show "promise (sendCommand example_platform example_config (js ''PING'')
        (Some (js ''constructor'')) []) = Rejected (node_error ''ERR_MISSING_ARGS'')"
    unfolding inherited_name_not_refused by (simp add: example_connect_refuses)
qed

text \<open>
  Any other name that is not configured is refused before a socket exists, with a message
  that names it and lists the configured names.
\<close>

lemma unknown_server_no_socket:
  assumes "key = string_or_undefined (serverName cfg nm)"
    and "map_of (servers cfg) key = None" and "key \<notin> set Object_prototype_names"
  shows "sendCommand P cfg command nm evs =
     initial_state\<lparr>promise := Resolved (error_envelope
       (js ''Unknown server: '' @ key @ js ''. Available: ''
          @ js_join (js '', '') (map fst (servers cfg))))\<rparr>"
  using assms by (simp add: sendCommand_unknown getServer_def servers_property_def Let_def)

text \<open>
  A port that \<^verbatim>\<open>connect\<close> does not accept rejects the promise as well: nothing checks
  the port of a configured server before it is passed on.
\<close>

lemma bad_port_rejects:
  "promise (sendCommand example_platform
      \<lparr>servers = [(js ''dev'', \<lparr>host = JStr (js ''dev.local''), port = JNum (JFinite 70000),
                                apiKey = JUndefined, name = JUndefined\<rparr>)],
       default_server = None\<rparr>
      (js ''PING'') None evs) = Rejected (node_error ''ERR_SOCKET_BAD_PORT'')"
proof -
  let ?cfg = "\<lparr>servers = [(js ''dev'', \<lparr>host = JStr (js ''dev.local''),
      port = JNum (JFinite 70000), apiKey = JUndefined, name = JUndefined\<rparr>)],
       default_server = None\<rparr>"
  let ?srv = "\<lparr>host = JStr (js ''dev.local''), port = JNum (JFinite 70000),
      apiKey = JUndefined, name = JStr (js ''dev'')\<rparr>"
  have srv: "getServer ?cfg None = Inr ?srv"
    by (simp add: getServer_def serverName_def optional_def js_or_def string_or_undefined_def
          servers_property_def)
  have "promise (executor example_platform ?srv) = Rejected (node_error ''ERR_SOCKET_BAD_PORT'')"
    by (rule executor_promise) (simp add: example_connect_refuses)
  then show ?thesis
    unfolding sendCommand_known [OF srv] by (rule run_rejected)
qed

section \<open>Ports\<close>

lemma floor_eighty_and_a_half: "\<lfloor>161 / 2 :: rat\<rfloor> = 80"
  by (rule floor_unique) simp_all

lemmas port_defs =
  validatePort_def parseInt10_def js_whitespace_def is_digit_def digits_value_def
  round_to_double_def accepted_def rejected_def

text \<open>
  Claim C7 at the strings \<^verbatim>\<open>80.5\<close> and \<^verbatim>\<open>9999abc\<close>: \<^verbatim>\<open>parseInt\<close> reads the
  leading digits, so both are accepted, although the number 80.5 is rejected.
\<close>

theorem validatePort_truncates_strings:
  "valid (validatePort (JStr (js ''80.5'')))
   \<and> \<not> valid (validatePort (JNum (JFinite (161 / 2))))
   \<and> valid (validatePort (JStr (js ''9999abc'')))"
  by (simp add: port_defs floor_eighty_and_a_half)

lemma validatePort_examples:
  "\<not> valid (validatePort (JNum (JFinite 0)))" "\<not> valid (validatePort (JNum (JFinite 65536)))"
  "valid (validatePort (JStr (js ''9999'')))"
  by (simp_all add: port_defs)

lemma validatePort_number:
  "valid (validatePort (JNum n)) \<longleftrightarrow> (\<exists>k. n = JFinite (of_int k) \<and> 1 \<le> k \<and> k \<le> 65535)"
proof (cases n)
  case (JFinite q)
  show ?thesis
  proof (cases "q = of_int \<lfloor>q\<rfloor>")
    case True
    then obtain k where k: "q = of_int k" ..
    show ?thesis
      unfolding JFinite k by (auto simp: validatePort_def accepted_def rejected_def)
  next
    case False
    then have "\<not> valid (validatePort (JNum n))"
      unfolding JFinite by (simp add: validatePort_def rejected_def)
    moreover have "\<not> (\<exists>k. n = JFinite (of_int k) \<and> 1 \<le> k \<and> k \<le> 65535)"
      using False unfolding JFinite by auto
    ultimately show ?thesis by blast
  qed
qed (simp_all add: validatePort_def rejected_def)

section \<open>Newlines in the command line\<close>

lemma validatePattern_iff:
  "valid (validatePattern (JStr s)) \<longleftrightarrow>
     length s \<le> MAX_INPUT_LENGTH \<and> (s = [] \<or> s = js ''*'' \<or> \<not> list_ex dangerous_char s)"
  by (auto simp: validatePattern_def accepted_valid rejected_invalid dangerous_test)

lemma newline_dangerous: "dangerous_char (cu CHR ''\<newline>'')"
  by (simp add: dangerous_char_def)

lemma safe_no_newline: "\<not> list_ex dangerous_char s \<Longrightarrow> cu CHR ''\<newline>'' \<notin> set s"
  using newline_dangerous by (auto simp: list_ex_iff)

lemma valid_inputs_no_newline:
  "valid (validateClassName (JStr s)) \<Longrightarrow> cu CHR ''\<newline>'' \<notin> set s"
  "valid (validateSelector (JStr s)) \<Longrightarrow> cu CHR ''\<newline>'' \<notin> set s"
  "valid (validatePattern (JStr s)) \<Longrightarrow> cu CHR ''\<newline>'' \<notin> set s"
proof -
  show "valid (validateClassName (JStr s)) \<Longrightarrow> cu CHR ''\<newline>'' \<notin> set s"
    using safe_no_newline [of s] by (simp add: validateClassName_iff)
  show "valid (validateSelector (JStr s)) \<Longrightarrow> cu CHR ''\<newline>'' \<notin> set s"
    using safe_no_newline [of s] by (simp add: validateSelector_iff)
  show "valid (validatePattern (JStr s)) \<Longrightarrow> cu CHR ''\<newline>'' \<notin> set s"
    using safe_no_newline [of s] by (auto simp: validatePattern_iff)
qed

lemma base64_digit_alphabet: "base64_digit n \<in> set base64_alphabet"
  unfolding base64_digit_def by (rule nth_mem) (simp add: base64_alphabet_def)

lemma base64_digit_no_newline: "base64_digit n \<noteq> cu CHR ''\<newline>''"
proof
  assume "base64_digit n = cu CHR ''\<newline>''"
  with base64_digit_alphabet [of n] have "cu CHR ''\<newline>'' \<in> set base64_alphabet"
    by simp
  then show False
    by (simp add: base64_alphabet_def)
qed

lemma base64_no_newline: "cu CHR ''\<newline>'' \<notin> set (base64 bytes)"
  by (induction bytes rule: base64.induct) (simp_all add: base64_digit_no_newline [simplified])

lemma side_text_no_newline: "cu CHR ''\<newline>'' \<notin> set (side_text sd)"
  by (cases sd) (simp_all add: side_text_def)

lemma tool_command_no_newline:
  assumes "tool_command P img call = Inr command"
    and "\<forall>expression. call \<noteq> EvalSmalltalk expression"
  shows "cu CHR ''\<newline>'' \<notin> set command"
  using assms valid_inputs_no_newline base64_no_newline side_text_no_newline
  by (cases call) (auto simp: checked_def Let_def split: if_splits)

lemma command_line_single_newline:
  assumes "cu CHR ''\<newline>'' \<notin> set command"
    and "truthy (apiKey srv) \<longrightarrow> cu CHR ''\<newline>'' \<notin> set (template_text P (apiKey srv))"
  shows "last (command_line P srv command) = cu CHR ''\<newline>''"
    and "cu CHR ''\<newline>'' \<notin> set (butlast (command_line P srv command))"
  using assms by (auto simp: command_line_def butlast_append)

text \<open>
  Claim C1, amended. The command of every tool call other than \<^verbatim>\<open>eval_smalltalk\<close> whose
  arguments pass its validators contains no newline: a class name, a selector or a pattern
  that its validator accepts has none, and method source and the class payload are sent
  Base64-encoded. For a command without a newline, and an API key (if any) whose text has
  none, the line written ends with a newline and has no other.
\<close>

theorem commands_newline_free:
  "(tool_command P img call = Inr command \<and> (\<forall>expression. call \<noteq> EvalSmalltalk expression)
      \<longrightarrow> cu CHR ''\<newline>'' \<notin> set command)
   \<and> (cu CHR ''\<newline>'' \<notin> set command \<and>
       (truthy (apiKey srv) \<longrightarrow> cu CHR ''\<newline>'' \<notin> set (template_text P (apiKey srv)))
      \<longrightarrow> last (command_line P srv command) = cu CHR ''\<newline>'' \<and>
          cu CHR ''\<newline>'' \<notin> set (butlast (command_line P srv command)))
   \<and> (valid (validateClassName (JStr s)) \<or> valid (validateSelector (JStr s)) \<or>
       valid (validatePattern (JStr s)) \<longrightarrow> cu CHR ''\<newline>'' \<notin> set s)"
  using tool_command_no_newline [of P img call command]
    command_line_single_newline [of command srv P] valid_inputs_no_newline [of s]
  by blast

lemmas tool_defs =
  checked_def validateClassName_def validateSelector_def validateSource_def
  validateExpression_def validateServerName_def optional_def MAX_INPUT_LENGTH_def
  MAX_SOURCE_LENGTH_def DANGEROUS_CHARS_def dangerous_class_def expression_control_class_def
  in_class_def IDENTIFIER_PATTERN_def UNARY_SELECTOR_PATTERN_def BINARY_SELECTOR_PATTERN_def
  KEYWORD_SELECTOR_PATTERN_def lower_class_def alnum_class_def letter_class_def
  binary_class_def accepted_def rejected_def side_text_def base64_digit_def
  base64_alphabet_def

lemma example_edit:
  "tool_command example_platform None
     (EditMethod (js ''Foo'') (js ''bar'') (js ''bar\<newline> ^1'') Instance)
   = Inr (js ''EDIT Foo bar instance YmFyCiBeMQ=='')"
  by (simp add: tool_defs)

text \<open>Claim C1, amended, on an \<^verbatim>\<open>edit_method\<close> call whose source has two lines.\<close>

theorem commands_newline_free_witness:
  "tool_command example_platform None
     (EditMethod (js ''Foo'') (js ''bar'') (js ''bar\<newline> ^1'') Instance)
     = Inr (js ''EDIT Foo bar instance YmFyCiBeMQ=='')
   \<and> cu CHR ''\<newline>'' \<notin> set (js ''EDIT Foo bar instance YmFyCiBeMQ=='')
   \<and> last (command_line example_platform example_keyed (js ''EDIT Foo bar instance YmFyCiBeMQ==''))
       = cu CHR ''\<newline>''
   \<and> cu CHR ''\<newline>'' \<notin> set (butlast (command_line example_platform example_keyed
         (js ''EDIT Foo bar instance YmFyCiBeMQ=='')))"
proof -
  have call: "\<forall>expression.
      EditMethod (js ''Foo'') (js ''bar'') (js ''bar\<newline> ^1'') Instance
        \<noteq> EvalSmalltalk expression"
    by simp
  have key: "truthy (apiKey example_keyed) \<longrightarrow>
      cu CHR ''\<newline>'' \<notin> set (template_text example_platform (apiKey example_keyed))"
    by (simp add: example_keyed_def template_text_def)
  from commands_newline_free [where P = example_platform and img = None
      and call = "EditMethod (js ''Foo'') (js ''bar'') (js ''bar\<newline> ^1'') Instance"
      and command = "js ''EDIT Foo bar instance YmFyCiBeMQ==''" and srv = example_keyed]
    example_edit call key
  show ?thesis by blast
qed

text \<open>
  Claim C1 as stated fails for \<^verbatim>\<open>eval_smalltalk\<close>: \<open>validateExpression\<close> accepts an
  expression of two lines, the command is \<^verbatim>\<open>EVAL\<close> followed by it, and the line written
  has a newline before its last one.
\<close>

theorem eval_command_embeds_newline:
  "valid (validateExpression (JStr (js ''1\<newline>2'')))
   \<and> tool_command example_platform None (EvalSmalltalk (js ''1\<newline>2''))
       = Inr (js ''EVAL 1\<newline>2'')
   \<and> written (sendCommand example_platform example_config (js ''EVAL 1\<newline>2'') None
        [OnConnect]) = [js ''EVAL 1\<newline>2\<newline>'']
   \<and> cu CHR ''\<newline>'' \<in> set (butlast (js ''EVAL 1\<newline>2\<newline>''))"
  by (simp add: tool_defs sendCommand_def example_getServer executor_def Let_def
        example_platform_def example_connect_def initial_state_def command_line_def)

end
